theory Spec2Isabelle
  imports Complex_Main "HOL-Library.AList"
begin

section \<open>Values of the source language\<close>

text \<open>
  A JavaScript string is a sequence of UTF-16 code units. The installments keyword of
  the scraper is Hebrew, so strings are lists of code units rather than 8-bit characters;
  \<open>ascii\<close> embeds an ASCII literal.
\<close>

type_synonym jsstring = "nat list"

definition ascii :: "string \<Rightarrow> jsstring" where
  "ascii s = map of_char s"

text \<open>\<open>String.prototype.includes\<close>: the argument occurs at some position.\<close>

fun starts_with :: "jsstring \<Rightarrow> jsstring \<Rightarrow> bool" where
  "starts_with s [] = True"
| "starts_with [] (k # ks) = False"
| "starts_with (c # cs) (k # ks) = (c = k \<and> starts_with cs ks)"

fun includes_str :: "jsstring \<Rightarrow> jsstring \<Rightarrow> bool" where
  "includes_str [] k = (k = [])"
| "includes_str (c # cs) k = (starts_with (c # cs) k \<or> includes_str cs k)"

text \<open>
  \<open>s.match(/\d+/g)\<close>: the maximal runs of the digits 0 to 9, from left to right.
  \<open>scan_digits run s\<close> carries the run that is open at the front of \<open>s\<close>. The source
  gets \<open>null\<close> where the model has the empty list.
\<close>

definition is_digit :: "nat \<Rightarrow> bool" where
  "is_digit c = (48 \<le> c \<and> c \<le> 57)"

fun scan_digits :: "jsstring \<Rightarrow> jsstring \<Rightarrow> jsstring list" where
  "scan_digits run [] = (if run = [] then [] else [run])"
| "scan_digits run (c # cs) =
     (if is_digit c then scan_digits (run @ [c]) cs
      else if run = [] then scan_digits [] cs
      else run # scan_digits [] cs)"

definition match_digits :: "jsstring \<Rightarrow> jsstring list" where
  "match_digits s = scan_digits [] s"

text \<open>
  \<open>parseInt(s, 10)\<close>: leading white space is skipped, one sign is read, then the longest
  prefix of decimal digits; with no digit there the result is \<open>NaN\<close>. The result is a
  double: the integer that the digits write is rounded to the nearest double, a tie to
  the even one, so it is exact below \<open>2^53\<close>, and from \<open>2^1024\<close> on it is infinite.
  (ECMAScript lets an engine read every digit after the 20th as 0; the model reads them
  all.) A double that is an integer is kept as that integer.
\<close>

datatype parsed_int = NaN | Integer int | PlusInfinity | MinusInfinity

fun bit_length :: "nat \<Rightarrow> nat" where
  "bit_length n = (if n = 0 then 0 else Suc (bit_length (n div 2)))"

declare bit_length.simps [simp del]

definition nearest_double :: "nat \<Rightarrow> nat option" where
  "nearest_double n =
     (if n < 2 ^ 53 then Some n
      else let e = bit_length n - 53;
               q = n div 2 ^ e;
               r = n mod 2 ^ e;
               half = 2 ^ (e - 1);
               q' = (if half < r \<or> (r = half \<and> odd q) then q + 1 else q)
           in if 2 ^ 1024 \<le> q' * 2 ^ e then None else Some (q' * 2 ^ e))"

definition is_white_space :: "nat \<Rightarrow> bool" where
  "is_white_space c =
     (c \<in> set [9, 10, 11, 12, 13, 32, 160, 5760, 8232, 8233, 8239, 8287, 12288, 65279]
      \<or> (8192 \<le> c \<and> c \<le> 8202))"

definition decimal_value :: "jsstring \<Rightarrow> nat" where
  "decimal_value ds = foldl (\<lambda>n d. 10 * n + (d - 48)) 0 ds"

definition parseInt10 :: "jsstring \<Rightarrow> parsed_int" where
  "parseInt10 s =
     (let t = dropWhile is_white_space s;
          negative = (t \<noteq> [] \<and> hd t = 45);
          u = (if t \<noteq> [] \<and> (hd t = 45 \<or> hd t = 43) then tl t else t);
          ds = takeWhile is_digit u
      in if ds = [] then NaN
         else (case nearest_double (decimal_value ds) of
                 None \<Rightarrow> if negative then MinusInfinity else PlusInfinity
               | Some v \<Rightarrow> Integer ((if negative then - 1 else 1) * int v)))"

text \<open>
  A value that is a boolean or a number: its truth value in a condition, and the number
  that unary minus converts it to first.
\<close>

datatype bool_or_number = JBool bool | JNumber real

definition truthy :: "bool_or_number \<Rightarrow> bool" where
  "truthy v = (case v of JBool b \<Rightarrow> b | JNumber x \<Rightarrow> x \<noteq> 0)"

definition to_number :: "bool_or_number \<Rightarrow> real" where
  "to_number v = (case v of JBool b \<Rightarrow> (if b then 1 else 0) | JNumber x \<Rightarrow> x)"

text \<open>
  A \<open>Date\<close> may be the invalid date, and a moment made from it is the invalid moment.
  A valid moment is an instant, in milliseconds since the epoch.
\<close>

type_synonym moment = int

datatype js_date = InvalidDate | Date moment

datatype js_moment = InvalidMoment | ValidMoment moment

section \<open>Types of the scraper\<close>

datatype TransactionTypes = Normal | Installments

datatype TransactionStatuses = Completed | Pending

record InstallmentsInfo =
  installments_number :: parsed_int
  installments_total :: parsed_int

text \<open>
  \<open>CreditCardTransaction\<close>. The two dates are ISO strings, \<open>None\<close> where
  \<open>toISOString\<close> of an invalid moment gives \<open>null\<close>. Amounts are JSON numbers.
\<close>

record Transaction =
  txnType :: TransactionTypes
  txnIdentifier :: parsed_int
  date :: "jsstring option"
  processedDate :: "jsstring option"
  originalAmount :: real
  originalCurrency :: jsstring
  chargedAmount :: real
  description :: jsstring
  memo :: jsstring
  installments :: "InstallmentsInfo option"
  status :: TransactionStatuses

text \<open>
  \<open>ScrapedTransaction\<close>, field by field; a field marked \<open>?\<close> is an option.
  \<open>dealSumOutbound\<close> is declared a boolean and is used as one in conditions, and it is
  negated as the outbound deal sum: the field holds a boolean or a number.
\<close>

record ScrapedTransaction =
  dealSumType :: jsstring
  voucherNumberRatzOutbound :: jsstring
  voucherNumberRatz :: jsstring
  moreInfo :: "jsstring option"
  dealSumOutbound :: bool_or_number
  currencyId :: jsstring
  dealSum :: real
  fullPurchaseDate :: "jsstring option"
  fullPurchaseDateOutbound :: "jsstring option"
  fullSupplierNameHeb :: jsstring
  fullSupplierNameOutbound :: jsstring
  paymentSum :: real
  paymentSumOutbound :: real

text \<open>
  What the file imports and this repository's sources do not hold: the three currency
  constants of \<open>../constants\<close>, the calls into the moment library, the month sequence of
  \<open>../helpers/dates\<close> and the two functions of \<open>../helpers/transactions\<close>. They are
  parameters of the model. The month moments of the month sequence are valid moments;
  the start moment it is built from, which the time-window filter also gets, may be the
  invalid one.
\<close>

record externals =
  SHEKEL_CURRENCY_KEYWORD :: jsstring
  SHEKEL_CURRENCY :: jsstring
  ALT_SHEKEL_CURRENCY :: jsstring
  parseDateToISO :: "jsstring option \<Rightarrow> jsstring option"
    \<comment> \<open>\<open>moment(s, DATE_FORMAT).toISOString()\<close>\<close>
  formatBillingDate :: "moment \<Rightarrow> jsstring"
    \<comment> \<open>\<open>m.format('YYYY-MM-DD')\<close>\<close>
  monthOf :: "moment \<Rightarrow> nat"
    \<comment> \<open>\<open>m.month()\<close>, from 0\<close>
  yearOf :: "moment \<Rightarrow> int"
    \<comment> \<open>\<open>m.year()\<close>\<close>
  subtractOneYear :: "moment \<Rightarrow> moment"
    \<comment> \<open>\<open>m.subtract(1, 'years')\<close>\<close>
  getAllMonthMoments :: "js_moment \<Rightarrow> bool \<Rightarrow> moment list"
  fixInstallments :: "Transaction list \<Rightarrow> Transaction list"
  filterOldTransactions ::
    "Transaction list \<Rightarrow> js_moment \<Rightarrow> bool option \<Rightarrow> Transaction list"

section \<open>Constants\<close>

definition COUNTRY_CODE :: jsstring where
  "COUNTRY_CODE = ascii ''212''"

definition ID_TYPE :: jsstring where
  "ID_TYPE = ascii ''1''"

text \<open>The five Hebrew letters tav, shin, lamed, vav, final mem.\<close>

definition INSTALLMENTS_KEYWORD :: jsstring where
  "INSTALLMENTS_KEYWORD = [0x5EA, 0x5E9, 0x5DC, 0x5D5, 0x5DD]"

section \<open>The transaction record normalizer\<close>

definition convertCurrency :: "externals \<Rightarrow> jsstring \<Rightarrow> jsstring" where
  "convertCurrency ext currencyStr =
     (if currencyStr = SHEKEL_CURRENCY_KEYWORD ext \<or> currencyStr = ALT_SHEKEL_CURRENCY ext
      then SHEKEL_CURRENCY ext
      else currencyStr)"

text \<open>\<open>!txn.moreInfo\<close> holds for a missing memo and for the empty string.\<close>

definition getInstallmentsInfo :: "ScrapedTransaction \<Rightarrow> InstallmentsInfo option" where
  "getInstallmentsInfo txn =
     (case moreInfo txn of
        None \<Rightarrow> None
      | Some info \<Rightarrow>
          if info = [] \<or> \<not> includes_str info INSTALLMENTS_KEYWORD then None
          else (case match_digits info of
                  m0 # m1 # _ \<Rightarrow>
                    Some \<lparr>installments_number = parseInt10 m0, installments_total = parseInt10 m1\<rparr>
                | _ \<Rightarrow> None))"

definition getTransactionType :: "ScrapedTransaction \<Rightarrow> TransactionTypes" where
  "getTransactionType txn =
     (case getInstallmentsInfo txn of Some _ \<Rightarrow> Installments | None \<Rightarrow> Normal)"

definition convertTransactions ::
  "externals \<Rightarrow> ScrapedTransaction list \<Rightarrow> jsstring option \<Rightarrow> Transaction list" where
  "convertTransactions ext txns processed =
     (let filteredTxns =
            filter (\<lambda>txn. dealSumType txn \<noteq> ascii ''1'' \<and>
                          voucherNumberRatz txn \<noteq> ascii ''000000000'' \<and>
                          voucherNumberRatzOutbound txn \<noteq> ascii ''000000000'') txns
      in map (\<lambda>txn.
           let isOutbound = truthy (dealSumOutbound txn);
               txnDateStr = (if isOutbound then fullPurchaseDateOutbound txn
                             else fullPurchaseDate txn)
           in \<lparr>txnType = getTransactionType txn,
               txnIdentifier = parseInt10 (if isOutbound then voucherNumberRatzOutbound txn
                                        else voucherNumberRatz txn),
               date = parseDateToISO ext txnDateStr,
               processedDate = processed,
               originalAmount = (if isOutbound then - to_number (dealSumOutbound txn)
                                 else - dealSum txn),
               originalCurrency = convertCurrency ext (currencyId txn),
               chargedAmount = (if isOutbound then - paymentSumOutbound txn
                                else - paymentSum txn),
               description = (if isOutbound then fullSupplierNameOutbound txn
                              else fullSupplierNameHeb txn),
               memo = (case moreInfo txn of None \<Rightarrow> [] | Some info \<Rightarrow> info),
               installments = getInstallmentsInfo txn,
               status = Completed\<rparr>) filteredTxns)"

section \<open>Objects, URLs and the page\<close>

text \<open>
  A plain object is the list of its own properties in insertion order. Assigning to
  \<open>__proto__\<close> on an object literal sets its prototype and adds no own property.
  \<open>Object.keys\<close> lists the keys that are array indices first, in ascending numeric
  order, then the other keys in insertion order. A name that \<open>Object.prototype\<close>
  defines is found on every object literal that has no own property of that name.
\<close>

type_synonym 'v obj = "(jsstring \<times> 'v) list"

definition obj_get :: "'v obj \<Rightarrow> jsstring \<Rightarrow> 'v option" where
  "obj_get ob k = map_of ob k"

definition obj_assign :: "'v obj \<Rightarrow> jsstring \<Rightarrow> 'v \<Rightarrow> 'v obj" where
  "obj_assign ob k v = (if k = ascii ''__proto__'' then ob else AList.update k v ob)"

definition is_array_index :: "jsstring \<Rightarrow> bool" where
  "is_array_index k =
     (k \<noteq> [] \<and> list_all is_digit k \<and> (k = [48] \<or> hd k \<noteq> 48) \<and>
      decimal_value k < 2 ^ 32 - 1)"

definition obj_keys :: "'v obj \<Rightarrow> jsstring list" where
  "obj_keys ob =
     (let ks = map fst ob
      in sort_key decimal_value (filter is_array_index ks) @
         filter (\<lambda>k. \<not> is_array_index k) ks)"

definition Object_prototype_names :: "jsstring list" where
  "Object_prototype_names =
     map ascii [''constructor'', ''__defineGetter__'', ''__defineSetter__'',
       ''hasOwnProperty'', ''__lookupGetter__'', ''__lookupSetter__'', ''isPrototypeOf'',
       ''propertyIsEnumerable'', ''toString'', ''valueOf'', ''__proto__'',
       ''toLocaleString'']"

text \<open>
  \<open>String(n)\<close> of a number that \<open>parseInt\<close> gave, as the template literals build it
  (decimal digits; the exponent form of numbers from \<open>1e21\<close> on is left out).
\<close>

fun digits_of :: "nat \<Rightarrow> jsstring" where
  "digits_of n = (if n < 10 then [48 + n] else digits_of (n div 10) @ [48 + n mod 10])"

declare digits_of.simps [simp del]

definition number_to_string :: "parsed_int \<Rightarrow> jsstring" where
  "number_to_string n =
     (case n of
        NaN \<Rightarrow> ascii ''NaN''
      | Integer i \<Rightarrow> if i < 0 then 45 # digits_of (nat (- i)) else digits_of (nat i)
      | PlusInfinity \<Rightarrow> ascii ''Infinity''
      | MinusInfinity \<Rightarrow> ascii ''-Infinity'')"

text \<open>\<open>buildUrl(base, {queryParams})\<close>: the base and the query parameters, in order.\<close>

type_synonym url = "jsstring \<times> (jsstring \<times> jsstring) list"

definition buildUrl :: "jsstring \<Rightarrow> (jsstring \<times> jsstring) list \<Rightarrow> url" where
  "buildUrl base queryParams = (base, queryParams)"

text \<open>
  A response is a JSON object; the model keeps the properties the scraper reads, each
  of them absent (\<open>None\<close>) or present. \<open>CardsTransactionsListBean\<close> is read by computed
  keys \<open>Index<n>\<close>, so it is a map. \<open>loginStatus\<close> is the \<open>status\<close> property of the logon
  response.
\<close>

datatype header = Header (Status: "jsstring option")

record CardCharge =
  cardIndex :: jsstring
  cardNumber :: jsstring
  billingDate :: jsstring

datatype dashboard_bean = DashboardBean (cardsCharges: "CardCharge list option")

record txn_group =
  txnIsrael :: "ScrapedTransaction list option"
  txnAbroad :: "ScrapedTransaction list option"

datatype card_entry = CardEntry (CurrentCardTransactions: "txn_group list option")

record validate_bean =
  returnCode :: "jsstring option"
  userName :: "jsstring option"

record response =
  Header_of :: "header option"
  DashboardMonthBean :: "dashboard_bean option"
  CardsTransactionsListBean :: "(jsstring \<Rightarrow> card_entry option) option"
  ValidateIdDataBean :: "validate_bean option"
  loginStatus :: "jsstring option"

text \<open>
  The page answers a GET by its URL and a POST by its URL and body; \<open>None\<close> is the
  \<open>null\<close> the fetch helpers resolve to when there is no content.
\<close>

type_synonym body = "(jsstring \<times> jsstring option) list"

record page =
  fetchGetWithinPage :: "url \<Rightarrow> response option"
  fetchPostWithinPage :: "jsstring \<Rightarrow> body \<Rightarrow> response option"

text \<open>\<open>_.get(dataResult, 'Header.Status')\<close>: undefined where a step of the path is missing.\<close>

definition get_Header_Status :: "response option \<Rightarrow> jsstring option" where
  "get_Header_Status dataResult =
     (case dataResult of
        None \<Rightarrow> None
      | Some r \<Rightarrow> (case Header_of r of None \<Rightarrow> None | Some h \<Rightarrow> Status h))"

datatype error = TypeError | Error jsstring

section \<open>The monthly account resolver\<close>

record ScrapedAccount =
  acc_index :: parsed_int
  acc_accountNumber :: jsstring
  acc_processedDate :: "jsstring option"

definition getAccountsUrl :: "externals \<Rightarrow> jsstring \<Rightarrow> moment \<Rightarrow> url" where
  "getAccountsUrl ext servicesUrl' monthMoment =
     (let billingDate = formatBillingDate ext monthMoment
      in buildUrl servicesUrl'
           [(ascii ''reqName'', ascii ''DashboardMonth''),
            (ascii ''actionCode'', ascii ''0''),
            (ascii ''billingDate'', billingDate),
            (ascii ''format'', ascii ''Json'')])"

text \<open>The result is \<open>None\<close> where the source returns \<open>null\<close>.\<close>

definition fetchAccounts ::
  "externals \<Rightarrow> page \<Rightarrow> jsstring \<Rightarrow> moment \<Rightarrow> ScrapedAccount list option" where
  "fetchAccounts ext pg servicesUrl' monthMoment =
     (let dataUrl = getAccountsUrl ext servicesUrl' monthMoment;
          dataResult = fetchGetWithinPage pg dataUrl
      in case dataResult of
           None \<Rightarrow> None
         | Some r \<Rightarrow>
             if get_Header_Status dataResult = Some (ascii ''1'') then
               (case DashboardMonthBean r of
                  None \<Rightarrow> None
                | Some bean \<Rightarrow>
                    (case cardsCharges bean of
                       None \<Rightarrow> None
                     | Some charges \<Rightarrow>
                         Some (map (\<lambda>cardCharge.
                                 \<lparr>acc_index = parseInt10 (cardIndex cardCharge),
                                  acc_accountNumber = cardNumber cardCharge,
                                  acc_processedDate =
                                    parseDateToISO ext (Some (billingDate cardCharge))\<rparr>)
                               charges)))
             else None)"

section \<open>The monthly transaction fetcher\<close>

record BaseScraperOptions =
  startDate :: "js_date option"
  combineInstallments :: "bool option"

record ExtendedOptions = BaseScraperOptions +
  servicesUrl :: jsstring
  companyCode :: jsstring

record ScraperAccount =
  accountNumber :: jsstring
  txns :: "Transaction list"

record IndexedAccount = ScraperAccount +
  index :: parsed_int

definition getTransactionsUrl :: "externals \<Rightarrow> jsstring \<Rightarrow> moment \<Rightarrow> url" where
  "getTransactionsUrl ext servicesUrl' monthMoment =
     (let month = monthOf ext monthMoment + 1;
          year = yearOf ext monthMoment;
          monthStr = (if month < 10 then 48 # digits_of month else digits_of month)
      in buildUrl servicesUrl'
           [(ascii ''reqName'', ascii ''CardsTransactionsList''),
            (ascii ''month'', monthStr),
            (ascii ''year'', number_to_string (Integer year)),
            (ascii ''requiredDate'', ascii ''N'')])"

text \<open>
  \<open>_.get(dataResult, `CardsTransactionsListBean.Index${account.index}.CurrentCardTransactions`)\<close>
\<close>

definition get_CurrentCardTransactions ::
  "response option \<Rightarrow> parsed_int \<Rightarrow> txn_group list option" where
  "get_CurrentCardTransactions dataResult idx =
     (case dataResult of
        None \<Rightarrow> None
      | Some r \<Rightarrow>
          (case CardsTransactionsListBean r of
             None \<Rightarrow> None
           | Some bean \<Rightarrow>
               (case bean (ascii ''Index'' @ number_to_string idx) of
                  None \<Rightarrow> None
                | Some entry \<Rightarrow> CurrentCardTransactions entry)))"

text \<open>
  The helpers of \<open>../helpers/transactions\<close> are called by the fetcher; every call is
  recorded with its arguments, next to the value the fetcher computes.
\<close>

datatype helper_call =
    FixInstallmentsCall "Transaction list"
  | FilterOldTransactionsCall "Transaction list" js_moment "bool option"

text \<open>The body of \<open>txnGroups.forEach\<close>: what one group appends to \<open>allTxns\<close>.\<close>

definition forEach_txnGroup ::
  "externals \<Rightarrow> ScrapedAccount \<Rightarrow> Transaction list \<Rightarrow> txn_group \<Rightarrow> Transaction list" where
  "forEach_txnGroup ext account allTxns txnGroup =
     (let allTxns1 =
            (case txnIsrael txnGroup of
               None \<Rightarrow> allTxns
             | Some israel \<Rightarrow>
                 allTxns @ convertTransactions ext israel (acc_processedDate account))
      in case txnAbroad txnGroup of
           None \<Rightarrow> allTxns1
         | Some abroad \<Rightarrow>
             allTxns1 @ convertTransactions ext abroad (acc_processedDate account))"

text \<open>
  The body of \<open>accounts.forEach\<close>: the state is \<open>accountTxns\<close> and the calls made so far.
\<close>

definition forEach_account ::
  "externals \<Rightarrow> response option \<Rightarrow> ExtendedOptions \<Rightarrow> js_moment \<Rightarrow>
   IndexedAccount obj \<times> helper_call list \<Rightarrow> ScrapedAccount \<Rightarrow>
   IndexedAccount obj \<times> helper_call list" where
  "forEach_account ext dataResult options startMoment st account =
     (case get_CurrentCardTransactions dataResult (acc_index account) of
        None \<Rightarrow> st
      | Some txnGroups \<Rightarrow>
          let allTxns = foldl (forEach_txnGroup ext account) [] txnGroups;
              fix = (combineInstallments options \<noteq> Some True);
              fixedTxns = (if fix then fixInstallments ext allTxns else allTxns);
              filteredTxns =
                filterOldTransactions ext fixedTxns startMoment (combineInstallments options)
          in (obj_assign (fst st) (acc_accountNumber account)
                \<lparr>accountNumber = acc_accountNumber account,
                 txns = filteredTxns,
                 index = acc_index account\<rparr>,
              snd st @ (if fix then [FixInstallmentsCall allTxns] else []) @
                [FilterOldTransactionsCall fixedTxns startMoment
                   (combineInstallments options)]))"

text \<open>
  The fetcher returns the object \<open>accountTxns\<close>, or the empty array. With \<open>accounts\<close>
  \<open>null\<close>, \<open>accounts.forEach\<close> throws a \<open>TypeError\<close>.
\<close>

datatype month_result = AccountTxns "IndexedAccount obj" | EmptyArray

definition fetchTransactions ::
  "externals \<Rightarrow> page \<Rightarrow> ExtendedOptions \<Rightarrow> js_moment \<Rightarrow> moment \<Rightarrow>
   (error + month_result) \<times> helper_call list" where
  "fetchTransactions ext pg options startMoment monthMoment =
     (let accounts = fetchAccounts ext pg (servicesUrl options) monthMoment;
          dataUrl = getTransactionsUrl ext (servicesUrl options) monthMoment;
          dataResult = fetchGetWithinPage pg dataUrl
      in if get_Header_Status dataResult = Some (ascii ''1'') \<and>
            (case dataResult of
               None \<Rightarrow> False
             | Some r \<Rightarrow> CardsTransactionsListBean r \<noteq> None)
         then (case accounts of
                 None \<Rightarrow> (Inl TypeError, [])
               | Some accs \<Rightarrow>
                   let st = foldl (forEach_account ext dataResult options startMoment)
                              ([], []) accs
                   in (Inr (AccountTxns (fst st)), snd st))
         else (Inr EmptyArray, []))"

section \<open>The cross-month aggregator\<close>

definition result_keys :: "month_result \<Rightarrow> jsstring list" where
  "result_keys result = (case result of AccountTxns ob \<Rightarrow> obj_keys ob | EmptyArray \<Rightarrow> [])"

definition result_get :: "month_result \<Rightarrow> jsstring \<Rightarrow> IndexedAccount option" where
  "result_get result k = (case result of AccountTxns ob \<Rightarrow> obj_get ob k | EmptyArray \<Rightarrow> None)"

text \<open>
  \<open>Promise.all\<close>: the promises settle in the order \<open>completion\<close> (positions in the
  list of promises). Each value is stored at the position of its promise; the first
  rejection rejects the whole; while a promise is not settled the result is pending
  (\<open>None\<close>).
\<close>

fun promise_all_from ::
  "(error + 'a) list \<Rightarrow> nat list \<Rightarrow> 'a option list \<Rightarrow> (error + 'a list) option" where
  "promise_all_from outcomes [] slots =
     (case those slots of None \<Rightarrow> None | Some values \<Rightarrow> Some (Inr values))"
| "promise_all_from outcomes (i # rest) slots =
     (if i < length outcomes then
        (case outcomes ! i of
           Inl e \<Rightarrow> Some (Inl e)
         | Inr v \<Rightarrow> promise_all_from outcomes rest (slots[i := Some v]))
      else promise_all_from outcomes rest slots)"

definition promise_all :: "nat list \<Rightarrow> (error + 'a) list \<Rightarrow> (error + 'a list) option" where
  "promise_all completion outcomes =
     promise_all_from outcomes completion (replicate (length outcomes) None)"

text \<open>A \<open>forEach\<close> whose body may throw.\<close>

fun forEach_throwing :: "('s \<Rightarrow> 'x \<Rightarrow> error + 's) \<Rightarrow> 'x list \<Rightarrow> 's \<Rightarrow> error + 's" where
  "forEach_throwing f [] st = Inr st"
| "forEach_throwing f (x # xs) st =
     (case f st x of Inl e \<Rightarrow> Inl e | Inr st' \<Rightarrow> forEach_throwing f xs st')"

text \<open>
  The body of the inner \<open>forEach\<close>. \<open>combinedTxns[accountNumber]\<close> is the own property,
  or else what \<open>Object.prototype\<close> has under that name, which is truthy and has no
  \<open>push\<close>; only with neither is the empty array stored first.
\<close>

definition forEach_accountNumber ::
  "month_result \<Rightarrow> Transaction list obj \<Rightarrow> jsstring \<Rightarrow> error + Transaction list obj" where
  "forEach_accountNumber result combinedTxns accNumber =
     (case result_get result accNumber of
        None \<Rightarrow> Inl TypeError
      | Some entry \<Rightarrow>
          let toBeAddedTxns = txns entry
          in (case obj_get combinedTxns accNumber of
                Some txnsForAccount \<Rightarrow>
                  Inr (obj_assign combinedTxns accNumber (txnsForAccount @ toBeAddedTxns))
              | None \<Rightarrow>
                  if accNumber \<in> set Object_prototype_names then Inl TypeError
                  else Inr (obj_assign combinedTxns accNumber ([] @ toBeAddedTxns))))"

definition forEach_result ::
  "Transaction list obj \<Rightarrow> month_result \<Rightarrow> error + Transaction list obj" where
  "forEach_result combinedTxns result =
     forEach_throwing (forEach_accountNumber result) (result_keys result) combinedTxns"

datatype ErrorTypes = InvalidPassword | ChangePassword

record LegacyScrapingResult =
  success :: bool
  accounts :: "ScraperAccount list option"
  errorType :: "ErrorTypes option"

text \<open>
  The value is \<open>None\<close> while \<open>Promise.all\<close> is pending, an error where the function
  throws, the result otherwise; beside it, the helper calls of every month's fetch.
\<close>

definition fetchAllTransactions ::
  "externals \<Rightarrow> page \<Rightarrow> ExtendedOptions \<Rightarrow> js_moment \<Rightarrow> nat list \<Rightarrow>
   (error + LegacyScrapingResult) option \<times> helper_call list list" where
  "fetchAllTransactions ext pg options startMoment completion =
     (let allMonths = getAllMonthMoments ext startMoment True;
          runs = map (fetchTransactions ext pg options startMoment) allMonths;
          outcome =
            (case promise_all completion (map fst runs) of
               None \<Rightarrow> None
             | Some (Inl e) \<Rightarrow> Some (Inl e)
             | Some (Inr results) \<Rightarrow>
                 (case forEach_throwing forEach_result results [] of
                    Inl e \<Rightarrow> Some (Inl e)
                  | Inr combinedTxns \<Rightarrow>
                      Some (Inr \<lparr>success = True,
                                 accounts =
                                   Some (map (\<lambda>accNumber.
                                           \<lparr>accountNumber = accNumber,
                                            txns = (case obj_get combinedTxns accNumber of
                                                      None \<Rightarrow> []
                                                    | Some ts \<Rightarrow> ts)\<rparr>)
                                         (obj_keys combinedTxns)),
                                 errorType = None\<rparr>)))
      in (outcome, map snd runs))"

section \<open>The scraper class\<close>

datatype ScrapeProgressTypes = LoggingIn | LoginSuccess | LoginFailed | ChangePassword

text \<open>What a login does to the outside, in order.\<close>

datatype event =
    Navigated jsstring
  | Emitted ScrapeProgressTypes
  | Posted jsstring body

record scraper =
  this_options :: BaseScraperOptions
  this_baseUrl :: jsstring
  this_companyCode :: jsstring
  this_servicesUrl :: jsstring

definition IsracardAmexBaseScraper ::
  "BaseScraperOptions \<Rightarrow> jsstring \<Rightarrow> jsstring \<Rightarrow> scraper" where
  "IsracardAmexBaseScraper opts baseUrl companyCode' =
     \<lparr>this_options = opts,
      this_baseUrl = baseUrl,
      this_companyCode = companyCode',
      this_servicesUrl = baseUrl @ ascii ''/services/ProxyRequestHandler.ashx''\<rparr>"

definition login_failed_result :: "ErrorTypes \<Rightarrow> LegacyScrapingResult" where
  "login_failed_result e = \<lparr>success = False, accounts = None, errorType = Some e\<rparr>"

text \<open>The two requests of \<open>login\<close>: their URLs and bodies.\<close>

definition validateUrl :: "scraper \<Rightarrow> jsstring" where
  "validateUrl this = this_servicesUrl this @ ascii ''?reqName=ValidateIdData''"

definition validateRequest :: "scraper \<Rightarrow> (jsstring \<Rightarrow> jsstring option) \<Rightarrow> body" where
  "validateRequest this credentials =
     [(ascii ''id'', credentials (ascii ''id'')),
      (ascii ''cardSuffix'', credentials (ascii ''card6Digits'')),
      (ascii ''countryCode'', Some COUNTRY_CODE),
      (ascii ''idType'', Some ID_TYPE),
      (ascii ''checkLevel'', Some (ascii ''1'')),
      (ascii ''companyCode'', Some (this_companyCode this))]"

definition loginUrl :: "scraper \<Rightarrow> jsstring" where
  "loginUrl this = this_servicesUrl this @ ascii ''?reqName=performLogonI''"

definition loginRequest ::
  "scraper \<Rightarrow> (jsstring \<Rightarrow> jsstring option) \<Rightarrow> jsstring option \<Rightarrow> body" where
  "loginRequest this credentials userName' =
     [(ascii ''KodMishtamesh'', userName'),
      (ascii ''MisparZihuy'', credentials (ascii ''id'')),
      (ascii ''Sisma'', credentials (ascii ''password'')),
      (ascii ''cardSuffix'', credentials (ascii ''card6Digits'')),
      (ascii ''countryCode'', Some COUNTRY_CODE),
      (ascii ''idType'', Some ID_TYPE)]"

text \<open>
  \<open>login\<close>: the outcome (the error thrown, or the result returned) and the events up
  to it. \<open>credentials\<close> is a \<open>Record<string, string>\<close>.
\<close>

definition login ::
  "scraper \<Rightarrow> page \<Rightarrow> (jsstring \<Rightarrow> jsstring option) \<Rightarrow>
   (error + LegacyScrapingResult) \<times> event list" where
  "login this pg credentials =
     (let events0 = [Navigated (this_baseUrl this @ ascii ''/personalarea/Login''),
                     Emitted LoggingIn];
          validateResult =
            fetchPostWithinPage pg (validateUrl this) (validateRequest this credentials);
          events1 = events0 @ [Posted (validateUrl this) (validateRequest this credentials)];
          unknown = (Inl (Error (ascii ''unknown error during login'')), events1)
      in case validateResult of
           None \<Rightarrow> unknown
         | Some validated \<Rightarrow>
             (case Header_of validated of
                None \<Rightarrow> unknown
              | Some h \<Rightarrow>
                  if Status h \<noteq> Some (ascii ''1'') then unknown
                  else (case ValidateIdDataBean validated of
                          None \<Rightarrow> unknown
                        | Some bean \<Rightarrow>
                            let validateReturnCode = returnCode bean
                            in if validateReturnCode = Some (ascii ''1'') then
                                 (let request = loginRequest this credentials (userName bean);
                                      loginResult =
                                        fetchPostWithinPage pg (loginUrl this) request;
                                      events2 = events1 @ [Posted (loginUrl this) request];
                                      loginStatus' =
                                        (case loginResult of
                                           None \<Rightarrow> None
                                         | Some r \<Rightarrow> loginStatus r)
                                  in if loginResult \<noteq> None \<and>
                                        loginStatus' = Some (ascii ''1'') then
                                       (Inr \<lparr>success = True, accounts = None,
                                             errorType = None\<rparr>,
                                        events2 @ [Emitted LoginSuccess])
                                     else if loginResult \<noteq> None \<and>
                                             loginStatus' = Some (ascii ''3'') then
                                       (Inr (login_failed_result ErrorTypes.ChangePassword),
                                        events2 @ [Emitted ScrapeProgressTypes.ChangePassword])
                                     else
                                       (Inr (login_failed_result ErrorTypes.InvalidPassword),
                                        events2 @ [Emitted LoginFailed]))
                               else if validateReturnCode = Some (ascii ''4'') then
                                 (Inr (login_failed_result ErrorTypes.ChangePassword),
                                  events1 @ [Emitted ScrapeProgressTypes.ChangePassword])
                               else
                                 (Inr (login_failed_result ErrorTypes.InvalidPassword),
                                  events1 @ [Emitted LoginFailed]))))"

text \<open>\<open>moment(date)\<close>: the moment of a date, invalid for the invalid date.\<close>

definition moment_of :: "js_date \<Rightarrow> js_moment" where
  "moment_of d = (case d of InvalidDate \<Rightarrow> InvalidMoment | Date t \<Rightarrow> ValidMoment t)"

text \<open>
  \<open>moment.max(a, b)\<close> starts from \<open>a\<close> and takes \<open>b\<close> instead when \<open>b\<close> is invalid or
  is after \<open>a\<close>; no moment is after an invalid one.
\<close>

definition moment_max :: "js_moment \<Rightarrow> js_moment \<Rightarrow> js_moment" where
  "moment_max a b =
     (case b of
        InvalidMoment \<Rightarrow> b
      | ValidMoment y \<Rightarrow>
          (case a of
             InvalidMoment \<Rightarrow> a
           | ValidMoment x \<Rightarrow> if x < y then b else a))"

text \<open>
  \<open>fetchData\<close> reads the clock once: \<open>now\<close> is that instant. \<open>fetchData_startMoment\<close>
  is the \<open>startMoment\<close> it computes and passes on. A \<open>Date\<close> object is truthy, the
  invalid one too, so only a missing start date is replaced by the default.
\<close>

definition fetchData_startMoment :: "externals \<Rightarrow> scraper \<Rightarrow> moment \<Rightarrow> js_moment" where
  "fetchData_startMoment ext this now =
     (let defaultStartMoment = ValidMoment (subtractOneYear ext now);
          startDate' = (case startDate (this_options this) of
                          None \<Rightarrow> Date (subtractOneYear ext now)
                        | Some d \<Rightarrow> d)
      in moment_max defaultStartMoment (moment_of startDate'))"

definition fetchData ::
  "externals \<Rightarrow> scraper \<Rightarrow> page \<Rightarrow> moment \<Rightarrow> nat list \<Rightarrow>
   (error + LegacyScrapingResult) option \<times> helper_call list list" where
  "fetchData ext this pg now completion =
     fetchAllTransactions ext pg
       \<lparr>startDate = startDate (this_options this),
        combineInstallments = combineInstallments (this_options this),
        servicesUrl = this_servicesUrl this,
        companyCode = this_companyCode this\<rparr>
       (fetchData_startMoment ext this now) completion"

section \<open>Concrete inputs\<close>

text \<open>
  Externals for the examples: a moment counts months, the month sequence is the start
  month and the next one, dates are kept as they are written and the two helpers
  return their argument.
\<close>

definition demo_externals :: externals where
  "demo_externals =
     \<lparr>SHEKEL_CURRENCY_KEYWORD = [0x5E9, 0x5E7, 0x5DC],
      SHEKEL_CURRENCY = ascii ''ILS'',
      ALT_SHEKEL_CURRENCY = ascii ''NIS'',
      parseDateToISO = (\<lambda>s. s),
      formatBillingDate = (\<lambda>m. number_to_string (Integer m)),
      monthOf = (\<lambda>m. nat (m mod 12)),
      yearOf = (\<lambda>m. m div 12),
      subtractOneYear = (\<lambda>m. m - 12),
      getAllMonthMoments =
        (\<lambda>s includeNext. case s of InvalidMoment \<Rightarrow> [] | ValidMoment m \<Rightarrow> [m, m + 1]),
      fixInstallments = (\<lambda>ts. ts),
      filterOldTransactions = (\<lambda>ts m c. ts)\<rparr>"

definition demo_txn :: "jsstring \<Rightarrow> ScrapedTransaction" where
  "demo_txn supplier =
     \<lparr>dealSumType = ascii ''0'',
      voucherNumberRatzOutbound = ascii ''000000001'',
      voucherNumberRatz = ascii ''123456789'',
      moreInfo = None,
      dealSumOutbound = JBool False,
      currencyId = ascii ''NIS'',
      dealSum = 100,
      fullPurchaseDate = Some (ascii ''01/02/2020''),
      fullPurchaseDateOutbound = None,
      fullSupplierNameHeb = supplier,
      fullSupplierNameOutbound = [],
      paymentSum = 100,
      paymentSumOutbound = 0\<rparr>"

definition demo_canonical :: "jsstring \<Rightarrow> Transaction" where
  "demo_canonical supplier =
     \<lparr>txnType = Normal,
      txnIdentifier = Integer 123456789,
      date = Some (ascii ''01/02/2020''),
      processedDate = Some (ascii ''10/02/2020''),
      originalAmount = - 100,
      originalCurrency = ascii ''ILS'',
      chargedAmount = - 100,
      description = supplier,
      memo = [],
      installments = None,
      status = Completed\<rparr>"

definition empty_response :: response where
  "empty_response =
     \<lparr>Header_of = None, DashboardMonthBean = None, CardsTransactionsListBean = None,
      ValidateIdDataBean = None, loginStatus = None\<rparr>"

definition dashboard_response :: "jsstring \<Rightarrow> response" where
  "dashboard_response st =
     empty_response
       \<lparr>Header_of := Some (Header (Some st)),
        DashboardMonthBean :=
          Some (DashboardBean (Some [\<lparr>cardIndex = ascii ''0'', cardNumber = ascii ''1234'',
                                      billingDate = ascii ''10/02/2020''\<rparr>]))\<rparr>"

definition transactions_response :: "jsstring \<Rightarrow> response" where
  "transactions_response supplier =
     empty_response
       \<lparr>Header_of := Some (Header (Some (ascii ''1''))),
        CardsTransactionsListBean :=
          Some (\<lambda>k. if k = ascii ''Index0''
                     then Some (CardEntry (Some [\<lparr>txnIsrael = Some [demo_txn supplier],
                                                  txnAbroad = None\<rparr>]))
                     else None)\<rparr>"

text \<open>
  A page whose dashboard answers with the header status \<open>st\<close> and whose transactions
  list holds, for card 0, one purchase named after the month asked for.
\<close>

definition demo_page :: "jsstring \<Rightarrow> page" where
  "demo_page st =
     \<lparr>fetchGetWithinPage =
        (\<lambda>u. if map_of (snd u) (ascii ''reqName'') = Some (ascii ''DashboardMonth'')
              then Some (dashboard_response st)
              else Some (transactions_response
                           (case map_of (snd u) (ascii ''month'') of
                              None \<Rightarrow> []
                            | Some m \<Rightarrow> m))),
      fetchPostWithinPage = (\<lambda>u b. None)\<rparr>"

definition demo_options :: ExtendedOptions where
  "demo_options =
     \<lparr>startDate = None, combineInstallments = None,
      servicesUrl = ascii ''https://he.example/services/ProxyRequestHandler.ashx'',
      companyCode = ascii ''77''\<rparr>"

definition one_sentinel_txn :: ScrapedTransaction where
  "one_sentinel_txn = (demo_txn (ascii ''shop''))\<lparr>voucherNumberRatzOutbound := ascii ''000000000''\<rparr>"

definition mixed_sign_txn :: ScrapedTransaction where
  "mixed_sign_txn = (demo_txn (ascii ''shop''))\<lparr>paymentSum := - 50\<rparr>"

definition outbound_txn :: ScrapedTransaction where
  "outbound_txn =
     (demo_txn (ascii ''shop''))\<lparr>dealSumOutbound := JNumber 50, paymentSumOutbound := 180\<rparr>"

definition rounded_memo :: jsstring where
  "rounded_memo = INSTALLMENTS_KEYWORD @ ascii '' 9007199254740993 / 12''"

definition installments_memo :: jsstring where
  "installments_memo = INSTALLMENTS_KEYWORD @ ascii '' 3 / 12''"

definition installments_txn :: "jsstring option \<Rightarrow> ScrapedTransaction" where
  "installments_txn info = (demo_txn (ascii ''shop''))\<lparr>moreInfo := info\<rparr>"

definition demo_scraper :: "js_date option \<Rightarrow> scraper" where
  "demo_scraper start =
     IsracardAmexBaseScraper \<lparr>startDate = start, combineInstallments = None\<rparr>
       (ascii ''https://he.example'') (ascii ''77'')"

definition validate_response :: "jsstring \<Rightarrow> response" where
  "validate_response code =
     empty_response
       \<lparr>Header_of := Some (Header (Some (ascii ''1''))),
        ValidateIdDataBean :=
          Some \<lparr>returnCode = Some code, userName = Some (ascii ''user'')\<rparr>\<rparr>"

definition login_page :: "response option \<Rightarrow> response option \<Rightarrow> page" where
  "login_page validated logged =
     \<lparr>fetchGetWithinPage = (\<lambda>u. None),
      fetchPostWithinPage =
        (\<lambda>u b. if u = validateUrl (demo_scraper None) then validated else logged)\<rparr>"

definition demo_credentials :: "jsstring \<Rightarrow> jsstring option" where
  "demo_credentials =
     [ascii ''id'' \<mapsto> ascii ''012345678'', ascii ''card6Digits'' \<mapsto> ascii ''123456'',
      ascii ''password'' \<mapsto> ascii ''secret'']"

text \<open>The two-digit month of a moment that counts months, as the transactions URL has it.\<close>

definition month_string :: "moment \<Rightarrow> jsstring" where
  "month_string m =
     (if nat (m mod 12) + 1 < 10 then 48 # digits_of (nat (m mod 12) + 1)
      else digits_of (nat (m mod 12) + 1))"

definition demo_account :: ScrapedAccount where
  "demo_account =
     \<lparr>acc_index = Integer 0, acc_accountNumber = ascii ''1234'',
      acc_processedDate = Some (ascii ''10/02/2020'')\<rparr>"

definition demo_entry :: "moment \<Rightarrow> IndexedAccount" where
  "demo_entry m =
     \<lparr>accountNumber = ascii ''1234'', txns = [demo_canonical (month_string m)],
      index = Integer 0\<rparr>"

text \<open>
  Externals whose helpers act: \<open>fixInstallments\<close> writes \<open>fixed\<close> into the memo of
  every transaction, \<open>filterOldTransactions\<close> drops the purchases named \<open>01\<close>, and the
  month sequence is the start month and the two after it.
\<close>

definition filtering_externals :: externals where
  "filtering_externals =
     demo_externals
       \<lparr>getAllMonthMoments :=
          (\<lambda>s includeNext.
             case s of InvalidMoment \<Rightarrow> [] | ValidMoment m \<Rightarrow> [m, m + 1, m + 2]),
        fixInstallments := map (\<lambda>t. t\<lparr>memo := ascii ''fixed''\<rparr>),
        filterOldTransactions :=
          (\<lambda>ts m c. filter (\<lambda>t. description t \<noteq> ascii ''01'') ts)\<rparr>"

definition fixed_canonical :: "jsstring \<Rightarrow> Transaction" where
  "fixed_canonical supplier = (demo_canonical supplier)\<lparr>memo := ascii ''fixed''\<rparr>"

section \<open>Notions of the statements\<close>

text \<open>
  The validation response passes the guard of \<open>login\<close>: it is there, with a header of
  status \<open>'1'\<close> and a \<open>ValidateIdDataBean\<close>.
\<close>

definition validation_accepted :: "response option \<Rightarrow> bool" where
  "validation_accepted validateResult =
     (case validateResult of
        None \<Rightarrow> False
      | Some v \<Rightarrow>
          (case Header_of v of None \<Rightarrow> False | Some h \<Rightarrow> Status h = Some (ascii ''1'')) \<and>
          ValidateIdDataBean v \<noteq> None)"

text \<open>
  The raw deal sum and the raw payment sum of a record, by its direction: the outbound
  fields for an outbound record, the domestic ones otherwise.
\<close>

definition raw_dealSum :: "ScrapedTransaction \<Rightarrow> real" where
  "raw_dealSum r =
     (if truthy (dealSumOutbound r) then to_number (dealSumOutbound r) else dealSum r)"

definition raw_paymentSum :: "ScrapedTransaction \<Rightarrow> real" where
  "raw_paymentSum r =
     (if truthy (dealSumOutbound r) then paymentSumOutbound r else paymentSum r)"

text \<open>The calendar month of a valid moment, as a count of months.\<close>

definition month_index :: "externals \<Rightarrow> moment \<Rightarrow> int" where
  "month_index ext m = yearOf ext m * 12 + int (monthOf ext m)"

text \<open>
  Modelled from the spec: \<open>getAllMonthMoments\<close> of \<open>../helpers/dates\<close>, which is not in
  the sources, gives "the ordered sequence of calendar months from" its start moment "to
  the current month inclusive". So no month of the sequence is before the calendar
  month of the start moment; and of two instants the later is not in an earlier
  calendar month.
\<close>

definition month_sequence_contract :: "externals \<Rightarrow> bool" where
  "month_sequence_contract ext =
     ((\<forall>s t. s \<le> t \<longrightarrow> month_index ext s \<le> month_index ext t) \<and>
      (\<forall>s b. \<forall>m\<in>set (getAllMonthMoments ext (ValidMoment s) b).
         month_index ext s \<le> month_index ext m))"

text \<open>The transactions one month's result holds for an account number; none without it.\<close>

definition month_txns :: "month_result \<Rightarrow> jsstring \<Rightarrow> Transaction list" where
  "month_txns result a = (case result_get result a of None \<Rightarrow> [] | Some entry \<Rightarrow> txns entry)"

text \<open>An object has every key once.\<close>

definition well_formed_result :: "month_result \<Rightarrow> bool" where
  "well_formed_result result =
     (case result of AccountTxns ob \<Rightarrow> distinct (map fst ob) | EmptyArray \<Rightarrow> True)"

text \<open>What the fetch of month \<open>m\<close> resolved to.\<close>

definition fetched_result ::
  "externals \<Rightarrow> page \<Rightarrow> ExtendedOptions \<Rightarrow> js_moment \<Rightarrow> moment \<Rightarrow> month_result" where
  "fetched_result ext pg opts start m =
     (case fst (fetchTransactions ext pg opts start m) of
        Inl e \<Rightarrow> EmptyArray
      | Inr result \<Rightarrow> result)"

text \<open>A recorded call is one of \<open>filterOldTransactions\<close>.\<close>

definition is_filter_call :: "helper_call \<Rightarrow> bool" where
  "is_filter_call c = (case c of FilterOldTransactionsCall ts m b \<Rightarrow> True | _ \<Rightarrow> False)"

text \<open>
  The month-local list of an account: for every transaction group of the month, in
  order, the converted domestic transactions and then the converted abroad ones.
\<close>

definition month_local_txns ::
  "externals \<Rightarrow> ScrapedAccount \<Rightarrow> txn_group list \<Rightarrow> Transaction list" where
  "month_local_txns ext account groups =
     concat (map (\<lambda>g.
       (case txnIsrael g of
          None \<Rightarrow> []
        | Some israel \<Rightarrow> convertTransactions ext israel (acc_processedDate account)) @
       (case txnAbroad g of
          None \<Rightarrow> []
        | Some abroad \<Rightarrow> convertTransactions ext abroad (acc_processedDate account))) groups)"

text \<open>
  The calls of \<open>filterOldTransactions\<close> for one account of a month: none without
  transaction groups, else one, on the month-local list (after \<open>fixInstallments\<close>
  unless installments are combined).
\<close>

definition expected_filter_calls ::
  "externals \<Rightarrow> response option \<Rightarrow> ExtendedOptions \<Rightarrow> js_moment \<Rightarrow> ScrapedAccount \<Rightarrow>
   helper_call list" where
  "expected_filter_calls ext dataResult opts start account =
     (case get_CurrentCardTransactions dataResult (acc_index account) of
        None \<Rightarrow> []
      | Some groups \<Rightarrow>
          [FilterOldTransactionsCall
             (if combineInstallments opts = Some True
              then month_local_txns ext account groups
              else fixInstallments ext (month_local_txns ext account groups))
             start (combineInstallments opts)])"

text \<open>
  What \<open>filterOldTransactions\<close> returns for one account of a month: its value on the
  month-local list (after \<open>fixInstallments\<close> unless installments are combined), with
  the start moment and the option.
\<close>

definition filtered_month_txns ::
  "externals \<Rightarrow> ExtendedOptions \<Rightarrow> js_moment \<Rightarrow> ScrapedAccount \<Rightarrow> txn_group list \<Rightarrow>
   Transaction list" where
  "filtered_month_txns ext opts start account groups =
     filterOldTransactions ext
       (if combineInstallments opts = Some True
        then month_local_txns ext account groups
        else fixInstallments ext (month_local_txns ext account groups))
       start (combineInstallments opts)"

section \<open>Properties of the normalizer\<close>

lemma convertTransactions_concat:
  "convertTransactions ext raws p = concat (map (\<lambda>t. convertTransactions ext [t] p) raws)"
  by (induction raws) (simp_all add: convertTransactions_def Let_def)

lemma convertTransactions_single:
  "convertTransactions ext [t] p = [] \<or> (\<exists>c. convertTransactions ext [t] p = [c])"
  by (simp add: convertTransactions_def Let_def)

text \<open>
  C1, as the code has it. \<open>convertTransactions\<close> handles every raw record on its own and
  gives at most one transaction for it. A record is dropped if and only if its
  deal-sum-type code is \<open>'1'\<close>, or its domestic voucher number is \<open>'000000000'\<close>, or its
  outbound voucher number is \<open>'000000000'\<close>: one sentinel voucher field is enough.
\<close>

theorem convertTransactions_drops_iff:
  "convertTransactions ext raws p = concat (map (\<lambda>t. convertTransactions ext [t] p) raws) \<and>
   length (convertTransactions ext [t] p) \<le> 1 \<and>
   (convertTransactions ext [t] p = [] \<longleftrightarrow>
      dealSumType t = ascii ''1'' \<or> voucherNumberRatz t = ascii ''000000000'' \<or>
      voucherNumberRatzOutbound t = ascii ''000000000'')"
proof (intro conjI)
  show "convertTransactions ext raws p = concat (map (\<lambda>t. convertTransactions ext [t] p) raws)"
    by (rule convertTransactions_concat)
  show "length (convertTransactions ext [t] p) \<le> 1"
    by (simp add: convertTransactions_def Let_def)
  show "convertTransactions ext [t] p = [] \<longleftrightarrow>
      dealSumType t = ascii ''1'' \<or> voucherNumberRatz t = ascii ''000000000'' \<or>
      voucherNumberRatzOutbound t = ascii ''000000000''"
    by (simp add: convertTransactions_def Let_def)
qed

lemma one_sentinel_fields:
  "dealSumType one_sentinel_txn = ascii ''0''"
  "voucherNumberRatz one_sentinel_txn = ascii ''123456789''"
  "voucherNumberRatzOutbound one_sentinel_txn = ascii ''000000000''"
  by (simp_all add: one_sentinel_txn_def demo_txn_def)

text \<open>
  C1 as stated fails: a record whose outbound voucher number alone is the sentinel, with
  deal-sum type \<open>'0'\<close> and domestic voucher number \<open>'123456789'\<close>, is dropped.
\<close>

theorem convertTransactions_one_sentinel_counterexample:
  "convertTransactions demo_externals [one_sentinel_txn] None = [] \<and>
   dealSumType one_sentinel_txn \<noteq> ascii ''1'' \<and>
   voucherNumberRatz one_sentinel_txn \<noteq> ascii ''000000000''"
  by (simp add: convertTransactions_def one_sentinel_fields ascii_def)

text \<open>C1, at the record with one sentinel field and at a record with none.\<close>

theorem convertTransactions_drops_iff_witness:
  "convertTransactions demo_externals [one_sentinel_txn] None = [] \<and>
   convertTransactions demo_externals [demo_txn (ascii ''shop'')] None \<noteq> []"
  using convertTransactions_drops_iff [of demo_externals "[]" None one_sentinel_txn]
    convertTransactions_drops_iff [of demo_externals "[]" None "demo_txn (ascii ''shop'')"]
  by (simp add: one_sentinel_fields demo_txn_def ascii_def)

text \<open>
  C5, as the code has it. Every transaction of the output comes from one kept raw record.
  Its original amount is the negated raw deal sum and its charged amount is the negated
  raw payment sum, both of the record's direction. So the original amount is negative
  when the raw deal sum is positive, the charged amount is negative when the raw
  payment sum is positive, and the two have the same sign when the raw deal sum and the
  raw payment sum have.
\<close>

theorem convertTransactions_amounts:
  assumes "c \<in> set (convertTransactions ext raws p)"
  shows "\<exists>r \<in> set raws. convertTransactions ext [r] p = [c] \<and>
           originalAmount c = - raw_dealSum r \<and>
           chargedAmount c = - raw_paymentSum r \<and>
           (0 < raw_dealSum r \<longrightarrow> originalAmount c < 0) \<and>
           (0 < raw_paymentSum r \<longrightarrow> chargedAmount c < 0) \<and>
           (sgn (raw_dealSum r) = sgn (raw_paymentSum r) \<longrightarrow>
              sgn (originalAmount c) = sgn (chargedAmount c))"
proof -
  from assms obtain r where r: "r \<in> set raws" and c: "c \<in> set (convertTransactions ext [r] p)"
    by (subst (asm) convertTransactions_concat) auto
  from c have one: "convertTransactions ext [r] p = [c]"
    using convertTransactions_single [of ext r p] by auto
  then have "originalAmount c = - raw_dealSum r" and "chargedAmount c = - raw_paymentSum r"
    by (auto simp: convertTransactions_def Let_def raw_dealSum_def raw_paymentSum_def
        split: if_splits)
  then show ?thesis using r one by (auto simp: sgn_minus)
qed

lemma voucher_not_sentinel: "ascii ''123456789'' \<noteq> ascii ''000000000''"
  by (simp add: ascii_def)

lemma nearest_double_exact: "n < 2 ^ 53 \<Longrightarrow> nearest_double n = Some n"
  by (simp add: nearest_double_def)

lemma parseInt10_voucher: "parseInt10 (ascii ''123456789'') = Integer 123456789"
  by (simp add: parseInt10_def ascii_def is_white_space_def is_digit_def decimal_value_def
      nearest_double_exact)

lemma demo_txn_type: "getInstallmentsInfo (demo_txn s) = None" "getTransactionType (demo_txn s) = Normal"
  by (simp_all add: getTransactionType_def getInstallmentsInfo_def demo_txn_def)

lemma demo_currency: "convertCurrency demo_externals (ascii ''NIS'') = ascii ''ILS''"
  by (simp add: convertCurrency_def demo_externals_def)

lemma demo_convert:
  "convertTransactions demo_externals [demo_txn s] p = [(demo_canonical s)\<lparr>processedDate := p\<rparr>]"
proof -
  have keep: "dealSumType (demo_txn s) \<noteq> ascii ''1'' \<and>
      voucherNumberRatz (demo_txn s) \<noteq> ascii ''000000000'' \<and>
      voucherNumberRatzOutbound (demo_txn s) \<noteq> ascii ''000000000''"
    by (simp add: demo_txn_def ascii_def)
  have parse: "parseDateToISO demo_externals d = d" for d
    by (simp add: demo_externals_def)
  have fields: "truthy (dealSumOutbound (demo_txn s)) = False"
    "voucherNumberRatz (demo_txn s) = ascii ''123456789''"
    "fullPurchaseDate (demo_txn s) = Some (ascii ''01/02/2020'')" "currencyId (demo_txn s) = ascii ''NIS''"
    "dealSum (demo_txn s) = 100" "paymentSum (demo_txn s) = 100" "fullSupplierNameHeb (demo_txn s) = s"
    "moreInfo (demo_txn s) = None"
    by (simp_all add: demo_txn_def truthy_def)
  show ?thesis
    using keep
    by (simp add: convertTransactions_def Let_def fields parse parseInt10_voucher demo_txn_type
        demo_currency demo_canonical_def)
qed

lemma mixed_sign_convert:
  "convertTransactions demo_externals [mixed_sign_txn] None =
     [(demo_canonical (ascii ''shop''))\<lparr>processedDate := None, chargedAmount := 50\<rparr>]"
proof -
  have keep: "dealSumType mixed_sign_txn \<noteq> ascii ''1'' \<and>
      voucherNumberRatz mixed_sign_txn \<noteq> ascii ''000000000'' \<and>
      voucherNumberRatzOutbound mixed_sign_txn \<noteq> ascii ''000000000''"
    by (simp add: mixed_sign_txn_def demo_txn_def ascii_def)
  have parse: "parseDateToISO demo_externals d = d" for d
    by (simp add: demo_externals_def)
  have ty: "getInstallmentsInfo mixed_sign_txn = None" "getTransactionType mixed_sign_txn = Normal"
    by (simp_all add: getTransactionType_def getInstallmentsInfo_def mixed_sign_txn_def demo_txn_def)
  have fields: "truthy (dealSumOutbound mixed_sign_txn) = False"
    "voucherNumberRatz mixed_sign_txn = ascii ''123456789''"
    "fullPurchaseDate mixed_sign_txn = Some (ascii ''01/02/2020'')" "currencyId mixed_sign_txn = ascii ''NIS''"
    "dealSum mixed_sign_txn = 100" "paymentSum mixed_sign_txn = - 50" "fullSupplierNameHeb mixed_sign_txn = ascii ''shop''"
    "moreInfo mixed_sign_txn = None"
    by (simp_all add: mixed_sign_txn_def demo_txn_def truthy_def)
  show ?thesis
    using keep
    by (simp add: convertTransactions_def Let_def fields parse parseInt10_voucher ty
        demo_currency demo_canonical_def)
qed

text \<open>
  C5 as stated fails: the kept domestic record with deal sum 100 and payment sum -50
  becomes a transaction with original amount -100 and charged amount 50.
\<close>

theorem convertTransactions_sign_counterexample:
  "convertTransactions demo_externals [mixed_sign_txn] None =
     [(demo_canonical (ascii ''shop''))\<lparr>processedDate := None, chargedAmount := 50\<rparr>] \<and>
   0 < dealSum mixed_sign_txn \<and>
   sgn (originalAmount ((demo_canonical (ascii ''shop''))\<lparr>processedDate := None, chargedAmount := 50\<rparr>))
     \<noteq> sgn (chargedAmount ((demo_canonical (ascii ''shop''))\<lparr>processedDate := None, chargedAmount := 50\<rparr>)) \<and>
   \<not> chargedAmount ((demo_canonical (ascii ''shop''))\<lparr>processedDate := None, chargedAmount := 50\<rparr>) \<le> 0"
  by (simp add: mixed_sign_convert) (simp add: mixed_sign_txn_def demo_txn_def demo_canonical_def)

text \<open>
  C5, at a domestic purchase of 100 charged 100, and at an outbound purchase whose
  outbound deal sum is 50 and whose outbound payment sum is 180.
\<close>

theorem convertTransactions_amounts_witness:
  "convertTransactions demo_externals [demo_txn (ascii ''shop'')] None =
     [(demo_canonical (ascii ''shop''))\<lparr>processedDate := None\<rparr>] \<and>
   originalAmount ((demo_canonical (ascii ''shop''))\<lparr>processedDate := None\<rparr>) = - 100 \<and>
   sgn (originalAmount ((demo_canonical (ascii ''shop''))\<lparr>processedDate := None\<rparr>)) =
     sgn (chargedAmount ((demo_canonical (ascii ''shop''))\<lparr>processedDate := None\<rparr>)) \<and>
   (\<exists>c. convertTransactions demo_externals [outbound_txn] None = [c] \<and>
        originalAmount c = - 50 \<and> chargedAmount c = - 180 \<and>
        sgn (originalAmount c) = sgn (chargedAmount c))"
proof -
  let ?c = "(demo_canonical (ascii ''shop''))\<lparr>processedDate := None\<rparr>"
  have conv: "convertTransactions demo_externals [demo_txn (ascii ''shop'')] None = [?c]"
    by (rule demo_convert)
  then have "?c \<in> set (convertTransactions demo_externals [demo_txn (ascii ''shop'')] None)"
    by simp
  from convertTransactions_amounts [OF this]
  obtain r where r: "r \<in> set [demo_txn (ascii ''shop'')]"
    and amounts: "originalAmount ?c = - raw_dealSum r"
      "sgn (raw_dealSum r) = sgn (raw_paymentSum r) \<longrightarrow>
         sgn (originalAmount ?c) = sgn (chargedAmount ?c)"
    by blast
  from r have "r = demo_txn (ascii ''shop'')" by simp
  with amounts have domestic:
    "originalAmount ?c = - 100 \<and> sgn (originalAmount ?c) = sgn (chargedAmount ?c)"
    by (simp add: demo_txn_def raw_dealSum_def raw_paymentSum_def truthy_def)
  have "voucherNumberRatzOutbound outbound_txn = ascii ''000000001''"
    "voucherNumberRatz outbound_txn = ascii ''123456789''" "dealSumType outbound_txn = ascii ''0''"
    by (simp_all add: outbound_txn_def demo_txn_def)
  then have "convertTransactions demo_externals [outbound_txn] None \<noteq> []"
    by (simp add: convertTransactions_def ascii_def)
  then obtain c where out: "convertTransactions demo_externals [outbound_txn] None = [c]"
    using convertTransactions_single [of demo_externals outbound_txn None] by blast
  then have "c \<in> set (convertTransactions demo_externals [outbound_txn] None)"
    by simp
  from convertTransactions_amounts [OF this]
  obtain r' where r': "r' \<in> set [outbound_txn]"
    and amounts': "originalAmount c = - raw_dealSum r'" "chargedAmount c = - raw_paymentSum r'"
    by blast
  from r' have "r' = outbound_txn" by simp
  with amounts' have "originalAmount c = - 50 \<and> chargedAmount c = - 180"
    by (simp add: outbound_txn_def demo_txn_def raw_dealSum_def raw_paymentSum_def truthy_def
        to_number_def)
  then have "originalAmount c = - 50 \<and> chargedAmount c = - 180 \<and>
      sgn (originalAmount c) = sgn (chargedAmount c)"
    by simp
  with out conv domestic show ?thesis by blast
qed

section \<open>Properties of the installments memo\<close>

lemma scan_digits_skip:
  "\<forall>c\<in>set pre. \<not> is_digit c \<Longrightarrow> scan_digits [] (pre @ s) = scan_digits [] s"
  by (induction pre) simp_all

lemma scan_digits_run:
  "\<forall>c\<in>set a. is_digit c \<Longrightarrow> scan_digits run (a @ s) = scan_digits (run @ a) s"
  by (induction a arbitrary: run) simp_all

lemma scan_digits_no_digit:
  "\<forall>c\<in>set s. \<not> is_digit c \<Longrightarrow> scan_digits run s = (if run = [] then [] else [run])"
  by (induction s arbitrary: run) simp_all

lemma match_digits_two:
  assumes pre: "\<forall>c\<in>set pre. \<not> is_digit c"
    and a: "a \<noteq> []" "\<forall>c\<in>set a. is_digit c"
    and sep: "sep \<noteq> []" "\<forall>c\<in>set sep. \<not> is_digit c"
    and b: "b \<noteq> []" "\<forall>c\<in>set b. is_digit c"
    and rest: "rest = [] \<or> \<not> is_digit (hd rest)"
  shows "\<exists>more. match_digits (pre @ a @ sep @ b @ rest) = a # b # more"
proof -
  obtain s sep' where sep_eq: "sep = s # sep'" using sep(1) by (cases sep) auto
  have 1: "match_digits (pre @ a @ sep @ b @ rest) = scan_digits a (sep @ b @ rest)"
    using pre a(2) by (simp add: match_digits_def scan_digits_skip scan_digits_run)
  have 2: "scan_digits a (sep @ b @ rest) = a # scan_digits [] (sep' @ b @ rest)"
    using sep(2) a(1) by (simp add: sep_eq)
  have 3: "scan_digits [] (sep' @ b @ rest) = scan_digits b rest"
    using sep(2) b(2) by (simp add: sep_eq scan_digits_skip scan_digits_run)
  have 4: "\<exists>more. scan_digits b rest = b # more"
    using rest b(1) by (cases rest) auto
  from 1 2 3 4 show ?thesis by auto
qed

lemma match_digits_at_most_one:
  assumes "\<forall>c\<in>set pre. \<not> is_digit c" "\<forall>c\<in>set d. is_digit c" "\<forall>c\<in>set post. \<not> is_digit c"
  shows "match_digits (pre @ d @ post) = (if d = [] then [] else [d])"
  using assms by (simp add: match_digits_def scan_digits_skip scan_digits_run scan_digits_no_digit)

lemma white_space_not_digit: "is_digit c \<Longrightarrow> \<not> is_white_space c"
  by (auto simp: is_digit_def is_white_space_def)

lemma decimal_value_snoc: "decimal_value (ds @ [d]) = 10 * decimal_value ds + (d - 48)"
  by (simp add: decimal_value_def)

lemma decimal_value_bound:
  "\<forall>c\<in>set ds. is_digit c \<Longrightarrow> decimal_value ds < 10 ^ length ds"
proof (induction ds rule: rev_induct)
  case Nil
  then show ?case by (simp add: decimal_value_def)
next
  case (snoc d ds)
  then have "decimal_value ds < 10 ^ length ds" and "d - 48 \<le> 9"
    by (auto simp: is_digit_def)
  then show ?case
    by (simp add: decimal_value_snoc)
qed

lemma parseInt10_digits:
  assumes "a \<noteq> []" "\<forall>c\<in>set a. is_digit c"
  shows "parseInt10 a =
           (case nearest_double (decimal_value a) of
              None \<Rightarrow> PlusInfinity
            | Some v \<Rightarrow> Integer (int v))"
proof -
  obtain c cs where a: "a = c # cs" using assms(1) by (cases a) auto
  have c: "is_digit c" using assms(2) a by simp
  then have "\<not> is_white_space c" "c \<noteq> 45" "c \<noteq> 43"
    by (auto simp: white_space_not_digit is_digit_def)
  moreover have "takeWhile is_digit a = a" using assms(2) by (simp add: takeWhile_eq_all_conv)
  ultimately show ?thesis using assms(1)
    by (simp add: parseInt10_def a Let_def split: option.splits)
qed

lemma parseInt10_short:
  assumes "a \<noteq> []" "\<forall>c\<in>set a. is_digit c" "length a \<le> 15"
  shows "parseInt10 a = Integer (int (decimal_value a))"
proof -
  have "decimal_value a < 10 ^ length a"
    using assms(2) by (rule decimal_value_bound)
  also have "(10::nat) ^ length a \<le> 10 ^ 15"
    by (rule power_increasing) (use assms(3) in simp_all)
  also have "(10::nat) ^ 15 < 2 ^ 53" by simp
  finally have "nearest_double (decimal_value a) = Some (decimal_value a)"
    by (rule nearest_double_exact)
  then show ?thesis
    by (simp add: parseInt10_digits [OF assms(1,2)])
qed

text \<open>
  C6, as the code has it. A memo that holds the installments keyword and reads: no
  digit, the digits \<open>a\<close>, at least one character and no digit, the digits \<open>b\<close>, then the
  end or a character that is no digit, gives the descriptor whose number is what
  \<open>parseInt\<close> makes of \<open>a\<close> and whose total is what it makes of \<open>b\<close>, in this order, and
  the transaction is of type Installments. What \<open>parseInt\<close> makes of a run of digits is
  the double nearest to the integer that the run writes (infinity where there is none),
  and for a run of at most 15 digits it is that integer.
  A missing memo, a memo without the keyword and a memo with at most one run of digits
  give no descriptor, and the transaction is of type Normal.
\<close>

theorem getInstallmentsInfo_first_two_integers:
  "(moreInfo txn = Some (pre @ a @ sep @ b @ rest) \<and>
    includes_str (pre @ a @ sep @ b @ rest) INSTALLMENTS_KEYWORD \<and>
    (\<forall>c\<in>set pre. \<not> is_digit c) \<and> a \<noteq> [] \<and> (\<forall>c\<in>set a. is_digit c) \<and>
    sep \<noteq> [] \<and> (\<forall>c\<in>set sep. \<not> is_digit c) \<and> b \<noteq> [] \<and> (\<forall>c\<in>set b. is_digit c) \<and>
    (rest = [] \<or> \<not> is_digit (hd rest))
    \<longrightarrow> getInstallmentsInfo txn =
          Some \<lparr>installments_number = parseInt10 a, installments_total = parseInt10 b\<rparr> \<and>
        getTransactionType txn = Installments \<and>
        parseInt10 a =
          (case nearest_double (decimal_value a) of
             None \<Rightarrow> PlusInfinity
           | Some v \<Rightarrow> Integer (int v)) \<and>
        parseInt10 b =
          (case nearest_double (decimal_value b) of
             None \<Rightarrow> PlusInfinity
           | Some v \<Rightarrow> Integer (int v)) \<and>
        (length a \<le> 15 \<longrightarrow> parseInt10 a = Integer (int (decimal_value a))) \<and>
        (length b \<le> 15 \<longrightarrow> parseInt10 b = Integer (int (decimal_value b)))) \<and>
   (moreInfo txn = None \<or> (\<exists>m. moreInfo txn = Some m \<and> \<not> includes_str m INSTALLMENTS_KEYWORD)
    \<longrightarrow> getInstallmentsInfo txn = None \<and> getTransactionType txn = Normal) \<and>
   (moreInfo txn = Some (pre' @ d @ post) \<and> (\<forall>c\<in>set pre'. \<not> is_digit c) \<and>
    (\<forall>c\<in>set d. is_digit c) \<and> (\<forall>c\<in>set post. \<not> is_digit c)
    \<longrightarrow> getInstallmentsInfo txn = None \<and> getTransactionType txn = Normal)"
proof (intro conjI impI)
  assume h: "moreInfo txn = Some (pre @ a @ sep @ b @ rest) \<and>
    includes_str (pre @ a @ sep @ b @ rest) INSTALLMENTS_KEYWORD \<and>
    (\<forall>c\<in>set pre. \<not> is_digit c) \<and> a \<noteq> [] \<and> (\<forall>c\<in>set a. is_digit c) \<and>
    sep \<noteq> [] \<and> (\<forall>c\<in>set sep. \<not> is_digit c) \<and> b \<noteq> [] \<and> (\<forall>c\<in>set b. is_digit c) \<and>
    (rest = [] \<or> \<not> is_digit (hd rest))"
  then obtain more where m: "match_digits (pre @ a @ sep @ b @ rest) = a # b # more"
    using match_digits_two [of pre a sep b rest] by blast
  have info: "getInstallmentsInfo txn =
          Some \<lparr>installments_number = parseInt10 a, installments_total = parseInt10 b\<rparr>"
    using h m by (simp add: getInstallmentsInfo_def)
  show "getInstallmentsInfo txn =
          Some \<lparr>installments_number = parseInt10 a, installments_total = parseInt10 b\<rparr>"
    by (rule info)
  show "getTransactionType txn = Installments" by (simp add: getTransactionType_def info)
  show "parseInt10 a =
          (case nearest_double (decimal_value a) of
             None \<Rightarrow> PlusInfinity
           | Some v \<Rightarrow> Integer (int v))"
    using h by (intro parseInt10_digits) simp_all
  show "parseInt10 b =
          (case nearest_double (decimal_value b) of
             None \<Rightarrow> PlusInfinity
           | Some v \<Rightarrow> Integer (int v))"
    using h by (intro parseInt10_digits) simp_all
  show "parseInt10 a = Integer (int (decimal_value a))" if "length a \<le> 15"
    using h that by (simp add: parseInt10_short)
  show "parseInt10 b = Integer (int (decimal_value b))" if "length b \<le> 15"
    using h that by (simp add: parseInt10_short)
next
  assume h: "moreInfo txn = None \<or> (\<exists>m. moreInfo txn = Some m \<and> \<not> includes_str m INSTALLMENTS_KEYWORD)"
  then have info: "getInstallmentsInfo txn = None"
    by (auto simp: getInstallmentsInfo_def)
  show "getInstallmentsInfo txn = None" by (rule info)
  show "getTransactionType txn = Normal" by (simp add: getTransactionType_def info)
next
  assume h: "moreInfo txn = Some (pre' @ d @ post) \<and> (\<forall>c\<in>set pre'. \<not> is_digit c) \<and>
    (\<forall>c\<in>set d. is_digit c) \<and> (\<forall>c\<in>set post. \<not> is_digit c)"
  then have "match_digits (pre' @ d @ post) = (if d = [] then [] else [d])"
    using match_digits_at_most_one by blast
  with h have info: "getInstallmentsInfo txn = None"
    by (simp add: getInstallmentsInfo_def)
  show "getInstallmentsInfo txn = None" by (rule info)
  show "getTransactionType txn = Normal" by (simp add: getTransactionType_def info)
qed

lemma installments_memo_eq:
  "installments_memo = INSTALLMENTS_KEYWORD @ [32, 51, 32, 47, 32, 49, 50]"
  by (simp add: installments_memo_def ascii_def)

lemma installments_memo_marker:
  "includes_str (INSTALLMENTS_KEYWORD @ [32, 51, 32, 47, 32, 49, 50]) INSTALLMENTS_KEYWORD"
  by (simp add: INSTALLMENTS_KEYWORD_def)

lemma keyword_marker: "includes_str (INSTALLMENTS_KEYWORD @ s) INSTALLMENTS_KEYWORD"
  by (simp add: INSTALLMENTS_KEYWORD_def)

lemma bit_length_eq: "2 ^ k \<le> n \<Longrightarrow> n < 2 ^ Suc k \<Longrightarrow> bit_length n = Suc k"
proof (induction k arbitrary: n)
  case 0
  then have "n = 1" by simp
  then show ?case by (simp add: bit_length.simps [of "Suc 0"] bit_length.simps [of 0])
next
  case (Suc k)
  then have "2 ^ k \<le> n div 2" "n div 2 < 2 ^ Suc k" "n \<noteq> 0"
    by auto
  with Suc.IH [of "n div 2"] show ?case
    by (simp add: bit_length.simps [of n])
qed

lemma nearest_double_tie: "nearest_double 9007199254740993 = Some 9007199254740992"
proof -
  have bits: "bit_length 9007199254740993 = Suc 53"
    by (rule bit_length_eq) simp_all
  have finite: "\<not> (2::nat) ^ 1024 \<le> 9007199254740992"
    by simp
  show ?thesis
    using finite by (simp add: nearest_double_def bits Let_def)
qed

text \<open>
  C6 as stated fails: in a memo with the keyword, the integer 9007199254740993 and then
  12, the number of the descriptor is 9007199254740992, which is not the first integer
  of the memo.
\<close>

theorem getInstallmentsInfo_rounds_counterexample:
  "getInstallmentsInfo (installments_txn (Some rounded_memo)) =
     Some \<lparr>installments_number = Integer 9007199254740992, installments_total = Integer 12\<rparr> \<and>
   match_digits rounded_memo = [ascii ''9007199254740993'', ascii ''12''] \<and>
   decimal_value (ascii ''9007199254740993'') = 9007199254740993"
proof -
  have digits: "\<forall>c\<in>set (ascii ''9007199254740993''). is_digit c"
    "\<forall>c\<in>set (ascii ''12''). is_digit c"
    by (simp_all add: is_digit_def ascii_def)
  have filled: "ascii ''9007199254740993'' \<noteq> []" "ascii ''12'' \<noteq> []"
    by (simp_all add: ascii_def)
  have runs: "match_digits rounded_memo = [ascii ''9007199254740993'', ascii ''12'']"
    by (simp add: match_digits_def rounded_memo_def INSTALLMENTS_KEYWORD_def ascii_def
        is_digit_def)
  have first: "decimal_value (ascii ''9007199254740993'') = 9007199254740993"
    by (simp add: decimal_value_def ascii_def)
  have second: "decimal_value (ascii ''12'') = 12"
    by (simp add: decimal_value_def ascii_def)
  have parsed: "parseInt10 (ascii ''9007199254740993'') = Integer 9007199254740992"
    "parseInt10 (ascii ''12'') = Integer 12"
    using parseInt10_digits [OF filled(1) digits(1)] parseInt10_digits [OF filled(2) digits(2)]
    by (simp_all add: first second nearest_double_tie nearest_double_exact)
  have marker: "includes_str rounded_memo INSTALLMENTS_KEYWORD" "rounded_memo \<noteq> []"
    by (simp_all add: rounded_memo_def keyword_marker INSTALLMENTS_KEYWORD_def)
  have "getInstallmentsInfo (installments_txn (Some rounded_memo)) =
     Some \<lparr>installments_number = Integer 9007199254740992, installments_total = Integer 12\<rparr>"
    by (simp add: getInstallmentsInfo_def installments_txn_def marker runs parsed)
  with runs first show ?thesis by blast
qed

text \<open>
  C6, at the keyword followed by \<open>3 / 12\<close>, at a missing memo, and at the keyword
  followed by the single number 3.
\<close>

theorem getInstallmentsInfo_first_two_integers_witness:
  "getInstallmentsInfo (installments_txn (Some installments_memo)) =
     Some \<lparr>installments_number = Integer 3, installments_total = Integer 12\<rparr> \<and>
   getTransactionType (installments_txn (Some installments_memo)) = Installments \<and>
   getInstallmentsInfo (installments_txn None) = None \<and>
   getTransactionType (installments_txn (Some (INSTALLMENTS_KEYWORD @ ascii '' 3''))) = Normal"
proof -
  have digits: "is_digit 51" "is_digit 49" "is_digit 50" "\<not> is_digit 32" "\<not> is_digit 47"
    "\<forall>c\<in>set INSTALLMENTS_KEYWORD. \<not> is_digit c"
    by (simp_all add: is_digit_def INSTALLMENTS_KEYWORD_def)
  have decimals: "decimal_value [51] = 3" "decimal_value [49, 50] = 12"
    by (simp_all add: decimal_value_def)
  have one: "INSTALLMENTS_KEYWORD @ ascii '' 3'' = (INSTALLMENTS_KEYWORD @ [32]) @ [51] @ []"
    by (simp add: ascii_def)
  have info: "moreInfo (installments_txn i) = i" for i
    by (simp add: installments_txn_def)
  have "getInstallmentsInfo (installments_txn (Some installments_memo)) =
          Some \<lparr>installments_number = parseInt10 [51], installments_total = parseInt10 [49, 50]\<rparr> \<and>
        getTransactionType (installments_txn (Some installments_memo)) = Installments \<and>
        parseInt10 [51] = Integer (int (decimal_value [51])) \<and>
        parseInt10 [49, 50] = Integer (int (decimal_value [49, 50]))"
    using getInstallmentsInfo_first_two_integers
        [of "installments_txn (Some installments_memo)" "INSTALLMENTS_KEYWORD @ [32]" "[51]"
            "[32, 47, 32]" "[49, 50]" "[]" "[]" "[]" "[]"]
    by (simp add: info digits installments_memo_eq installments_memo_marker decimals
        nearest_double_def)
  then have two: "getInstallmentsInfo (installments_txn (Some installments_memo)) =
          Some \<lparr>installments_number = Integer 3, installments_total = Integer 12\<rparr> \<and>
        getTransactionType (installments_txn (Some installments_memo)) = Installments"
    by (simp add: decimals)
  have none: "getInstallmentsInfo (installments_txn None) = None"
    using getInstallmentsInfo_first_two_integers
        [of "installments_txn None" "[]" "[]" "[]" "[]" "[]" "[]" "[]" "[]"]
    by (simp add: info)
  have single: "getTransactionType (installments_txn (Some (INSTALLMENTS_KEYWORD @ ascii '' 3''))) =
      Normal"
    using getInstallmentsInfo_first_two_integers
        [of "installments_txn (Some (INSTALLMENTS_KEYWORD @ ascii '' 3''))" "[]" "[]" "[]" "[]" "[]"
            "INSTALLMENTS_KEYWORD @ [32]" "[51]" "[]"]
    by (simp add: info digits one)
  from two none single show ?thesis by blast
qed

section \<open>Properties of the login and of the start moment\<close>

lemma login_urls_differ: "loginUrl this \<noteq> validateUrl this"
  by (simp add: loginUrl_def validateUrl_def ascii_def)

text \<open>
  C2, as the code has it. For every scraper, page and credentials, \<open>login\<close> returns a
  structured result (success, or failure with the error type ChangePassword or
  InvalidPassword) when the validation response is present with a header of status
  \<open>'1'\<close> and a \<open>ValidateIdDataBean\<close>; in every other case it throws the error
  \<open>unknown error during login\<close> to its caller.
\<close>

theorem login_outcome:
  "(validation_accepted
      (fetchPostWithinPage pg (validateUrl this) (validateRequest this credentials)) \<longrightarrow>
    fst (login this pg credentials) \<in>
      {Inr \<lparr>success = True, accounts = None, errorType = None\<rparr>,
       Inr \<lparr>success = False, accounts = None, errorType = Some ErrorTypes.ChangePassword\<rparr>,
       Inr \<lparr>success = False, accounts = None, errorType = Some ErrorTypes.InvalidPassword\<rparr>}) \<and>
   (\<not> validation_accepted
      (fetchPostWithinPage pg (validateUrl this) (validateRequest this credentials)) \<longrightarrow>
    fst (login this pg credentials) = Inl (Error (ascii ''unknown error during login'')))"
  by (auto simp: login_def validation_accepted_def Let_def login_failed_result_def
      split: option.splits)

text \<open>
  C9. When the validation response has the header status \<open>'1'\<close> and the return code
  \<open>'4'\<close>, \<open>login\<close> returns the failure of type ChangePassword, whatever the page would
  answer to a logon request and whatever the credentials are; its events are the
  navigation, the progress LoggingIn, the validation request and the progress
  ChangePassword, and no request to the logon URL is among them.
\<close>

theorem login_change_password_at_validation:
  assumes "fetchPostWithinPage pg (validateUrl this) (validateRequest this credentials) = Some v"
    and "Header_of v = Some h" and "Status h = Some (ascii ''1'')"
    and "ValidateIdDataBean v = Some bean" and "returnCode bean = Some (ascii ''4'')"
  shows "login this pg credentials =
          (Inr \<lparr>success = False, accounts = None, errorType = Some ErrorTypes.ChangePassword\<rparr>,
           [Navigated (this_baseUrl this @ ascii ''/personalarea/Login''),
            Emitted LoggingIn,
            Posted (validateUrl this) (validateRequest this credentials),
            Emitted ScrapeProgressTypes.ChangePassword]) \<and>
         (\<forall>b. Posted (loginUrl this) b \<notin> set (snd (login this pg credentials)))"
proof -
  have "ascii ''4'' \<noteq> ascii ''1''" by (simp add: ascii_def)
  then have run: "login this pg credentials =
          (Inr \<lparr>success = False, accounts = None, errorType = Some ErrorTypes.ChangePassword\<rparr>,
           [Navigated (this_baseUrl this @ ascii ''/personalarea/Login''),
            Emitted LoggingIn,
            Posted (validateUrl this) (validateRequest this credentials),
            Emitted ScrapeProgressTypes.ChangePassword])"
    using assms by (simp add: login_def Let_def login_failed_result_def)
  show ?thesis
    by (simp add: run login_urls_differ)
qed

lemma validate_post:
  "fetchPostWithinPage (login_page v l) (validateUrl (demo_scraper None)) b = v"
  by (simp add: login_page_def)

lemma validate_response_fields:
  "Header_of (validate_response c) = Some (Header (Some (ascii ''1'')))"
  "ValidateIdDataBean (validate_response c) = Some \<lparr>returnCode = Some c, userName = Some (ascii ''user'')\<rparr>"
  by (simp_all add: validate_response_def empty_response_def)

text \<open>C9, at a page whose logon would succeed.\<close>

theorem login_change_password_at_validation_witness:
  "fst (login (demo_scraper None)
          (login_page (Some (validate_response (ascii ''4'')))
             (Some (empty_response\<lparr>loginStatus := Some (ascii ''1'')\<rparr>)))
          demo_credentials) =
     Inr \<lparr>success = False, accounts = None, errorType = Some ErrorTypes.ChangePassword\<rparr>"
  using login_change_password_at_validation
    [of "login_page (Some (validate_response (ascii ''4'')))
             (Some (empty_response\<lparr>loginStatus := Some (ascii ''1'')\<rparr>))"
        "demo_scraper None" demo_credentials "validate_response (ascii ''4'')"
        "Header (Some (ascii ''1''))"
        "\<lparr>returnCode = Some (ascii ''4''), userName = Some (ascii ''user'')\<rparr>"]
  by (simp add: validate_post validate_response_fields)

text \<open>
  C2 as stated fails: with no validation response, \<open>login\<close> returns no result; it
  throws.
\<close>

theorem login_throws_counterexample:
  "fst (login (demo_scraper None) (login_page None None) demo_credentials) =
     Inl (Error (ascii ''unknown error during login''))"
  by (simp add: login_def validate_post Let_def)

text \<open>
  C2, at a validation response with return code \<open>'7'\<close> and at a validation response
  without a header.
\<close>

theorem login_outcome_witness:
  "fst (login (demo_scraper None) (login_page (Some (validate_response (ascii ''7''))) None)
          demo_credentials) \<in>
      {Inr \<lparr>success = True, accounts = None, errorType = None\<rparr>,
       Inr \<lparr>success = False, accounts = None, errorType = Some ErrorTypes.ChangePassword\<rparr>,
       Inr \<lparr>success = False, accounts = None, errorType = Some ErrorTypes.InvalidPassword\<rparr>} \<and>
   fst (login (demo_scraper None) (login_page (Some empty_response) None) demo_credentials) =
     Inl (Error (ascii ''unknown error during login''))"
  using login_outcome [of "login_page (Some (validate_response (ascii ''7''))) None"
      "demo_scraper None" demo_credentials]
    login_outcome [of "login_page (Some empty_response) None" "demo_scraper None" demo_credentials]
  by (simp add: validate_post validation_accepted_def validate_response_fields empty_response_def)

lemma fetchTransactions_same_answers:
  assumes "fetchGetWithinPage pg (getAccountsUrl ext (servicesUrl opts) m) =
           fetchGetWithinPage pg' (getAccountsUrl ext (servicesUrl opts) m)"
    and "fetchGetWithinPage pg (getTransactionsUrl ext (servicesUrl opts) m) =
         fetchGetWithinPage pg' (getTransactionsUrl ext (servicesUrl opts) m)"
  shows "fetchTransactions ext pg opts start m = fetchTransactions ext pg' opts start m"
  by (simp only: fetchTransactions_def fetchAccounts_def Let_def assms)

lemma fetchAllTransactions_same_answers:
  assumes "\<forall>m\<in>set (getAllMonthMoments ext start True).
             fetchGetWithinPage pg (getAccountsUrl ext (servicesUrl opts) m) =
             fetchGetWithinPage pg' (getAccountsUrl ext (servicesUrl opts) m) \<and>
             fetchGetWithinPage pg (getTransactionsUrl ext (servicesUrl opts) m) =
             fetchGetWithinPage pg' (getTransactionsUrl ext (servicesUrl opts) m)"
  shows "fetchAllTransactions ext pg opts start completion =
         fetchAllTransactions ext pg' opts start completion"
proof -
  have "map (fetchTransactions ext pg opts start) (getAllMonthMoments ext start True) =
        map (fetchTransactions ext pg' opts start) (getAllMonthMoments ext start True)"
    using assms by (intro map_cong refl fetchTransactions_same_answers) auto
  then show ?thesis
    by (simp only: fetchAllTransactions_def Let_def)
qed

text \<open>
  C8, as the code has it. With a valid start date, or none, the start moment
  \<open>fetchData\<close> computes is the later of one year before now and the caller's start
  date; without a start date it is one year before now. With a month sequence that
  keeps its contract, no month \<open>fetchData\<close> builds from this start moment is before the
  calendar month of one year before now, however far back the caller's start date
  lies. These months are the ones \<open>fetchData\<close> asks the page for: two pages that answer
  alike for them give the same outcome.
\<close>

theorem fetchData_effective_start:
  assumes "startDate (this_options this) \<noteq> Some InvalidDate"
    and "month_sequence_contract ext"
  shows "fetchData_startMoment ext this now =
           ValidMoment (max (subtractOneYear ext now)
                            (case startDate (this_options this) of
                               Some (Date d) \<Rightarrow> d
                             | _ \<Rightarrow> subtractOneYear ext now)) \<and>
         (startDate (this_options this) = None \<longrightarrow>
            fetchData_startMoment ext this now = ValidMoment (subtractOneYear ext now)) \<and>
         (\<forall>m\<in>set (getAllMonthMoments ext (fetchData_startMoment ext this now) True).
            month_index ext (subtractOneYear ext now) \<le> month_index ext m) \<and>
         ((\<forall>m\<in>set (getAllMonthMoments ext (fetchData_startMoment ext this now) True).
             fetchGetWithinPage pg (getAccountsUrl ext (this_servicesUrl this) m) =
             fetchGetWithinPage pg' (getAccountsUrl ext (this_servicesUrl this) m) \<and>
             fetchGetWithinPage pg (getTransactionsUrl ext (this_servicesUrl this) m) =
             fetchGetWithinPage pg' (getTransactionsUrl ext (this_servicesUrl this) m)) \<longrightarrow>
          fetchData ext this pg now completion = fetchData ext this pg' now completion)"
proof -
  define start where
    "start = max (subtractOneYear ext now)
                 (case startDate (this_options this) of
                    Some (Date d) \<Rightarrow> d
                  | _ \<Rightarrow> subtractOneYear ext now)"
  have moment: "fetchData_startMoment ext this now = ValidMoment start"
    using assms(1)
    by (auto simp: fetchData_startMoment_def moment_max_def moment_of_def Let_def start_def
        max_def split: option.splits js_date.splits)
  have absent: "startDate (this_options this) = None \<longrightarrow>
      fetchData_startMoment ext this now = ValidMoment (subtractOneYear ext now)"
    by (simp add: moment start_def)
  have "subtractOneYear ext now \<le> start"
    by (simp add: start_def)
  with assms(2) have floor: "month_index ext (subtractOneYear ext now) \<le> month_index ext start"
    by (simp add: month_sequence_contract_def)
  have months: "month_index ext (subtractOneYear ext now) \<le> month_index ext m"
    if "m \<in> set (getAllMonthMoments ext (fetchData_startMoment ext this now) True)" for m
  proof -
    from that assms(2) have "month_index ext start \<le> month_index ext m"
      unfolding moment month_sequence_contract_def by blast
    with floor show ?thesis by simp
  qed
  have frame: "fetchData ext this pg now completion = fetchData ext this pg' now completion"
    if "\<forall>m\<in>set (getAllMonthMoments ext (fetchData_startMoment ext this now) True).
             fetchGetWithinPage pg (getAccountsUrl ext (this_servicesUrl this) m) =
             fetchGetWithinPage pg' (getAccountsUrl ext (this_servicesUrl this) m) \<and>
             fetchGetWithinPage pg (getTransactionsUrl ext (this_servicesUrl this) m) =
             fetchGetWithinPage pg' (getTransactionsUrl ext (this_servicesUrl this) m)"
    unfolding fetchData_def
    using that by (intro fetchAllTransactions_same_answers) simp
  from moment absent months frame show ?thesis
    unfolding start_def by blast
qed

text \<open>
  C8 as stated fails: a caller's start date that is the invalid date is not replaced by
  the default, and the start moment is then the invalid moment, not the later of two
  instants.
\<close>

theorem fetchData_invalid_start_counterexample:
  "fetchData_startMoment demo_externals (demo_scraper (Some InvalidDate)) 24240 = InvalidMoment"
  by (simp add: fetchData_startMoment_def moment_max_def moment_of_def demo_scraper_def
      IsracardAmexBaseScraper_def)

lemma demo_month_index: "month_index demo_externals m = m"
  by (simp add: month_index_def demo_externals_def)

lemma demo_contract: "month_sequence_contract demo_externals"
  unfolding month_sequence_contract_def demo_month_index
  by (simp add: demo_externals_def)

text \<open>
  C8, with months for moments: no start date, a start date 20 years back, and a start
  date 5 months back; in the three cases the month sequence starts at or after the
  month of one year before now.
\<close>

theorem fetchData_effective_start_witness:
  "fetchData_startMoment demo_externals (demo_scraper None) 24240 = ValidMoment 24228 \<and>
   fetchData_startMoment demo_externals (demo_scraper (Some (Date 24000))) 24240 =
     ValidMoment 24228 \<and>
   fetchData_startMoment demo_externals (demo_scraper (Some (Date 24235))) 24240 =
     ValidMoment 24235 \<and>
   list_all (\<lambda>m. 24228 \<le> m)
     (getAllMonthMoments demo_externals
        (fetchData_startMoment demo_externals (demo_scraper (Some (Date 24000))) 24240) True)"
proof -
  have opts: "startDate (this_options (demo_scraper s)) = s" for s
    by (simp add: demo_scraper_def IsracardAmexBaseScraper_def)
  have sub: "subtractOneYear demo_externals 24240 = 24228"
    by (simp add: demo_externals_def)
  have valid: "startDate (this_options (demo_scraper None)) \<noteq> Some InvalidDate"
    "startDate (this_options (demo_scraper (Some (Date d)))) \<noteq> Some InvalidDate" for d
    by (simp_all add: opts)
  note none = fetchData_effective_start [OF valid(1) demo_contract, of 24240]
  note far = fetchData_effective_start [OF valid(2) demo_contract, of 24000 24240]
  note near = fetchData_effective_start [OF valid(2) demo_contract, of 24235 24240]
  have 1: "fetchData_startMoment demo_externals (demo_scraper None) 24240 = ValidMoment 24228"
    using none by (simp add: opts sub)
  have 2: "fetchData_startMoment demo_externals (demo_scraper (Some (Date 24000))) 24240 =
     ValidMoment 24228"
    using far by (simp add: opts sub)
  have 3: "fetchData_startMoment demo_externals (demo_scraper (Some (Date 24235))) 24240 =
     ValidMoment 24235"
    using near by (simp add: opts sub)
  have "\<forall>m\<in>set (getAllMonthMoments demo_externals
        (fetchData_startMoment demo_externals (demo_scraper (Some (Date 24000))) 24240) True).
      month_index demo_externals (subtractOneYear demo_externals 24240) \<le>
      month_index demo_externals m"
    using far by blast
  then have 4: "list_all (\<lambda>m. 24228 \<le> m)
     (getAllMonthMoments demo_externals
        (fetchData_startMoment demo_externals (demo_scraper (Some (Date 24000))) 24240) True)"
    by (simp add: demo_month_index sub list_all_iff)
  from 1 2 3 4 show ?thesis by blast
qed

section \<open>Runs on the concrete page\<close>

lemma demo_accounts_url:
  "getAccountsUrl demo_externals s m =
     (s, [(ascii ''reqName'', ascii ''DashboardMonth''), (ascii ''actionCode'', ascii ''0''),
          (ascii ''billingDate'', number_to_string (Integer m)),
          (ascii ''format'', ascii ''Json'')])"
  by (simp add: getAccountsUrl_def buildUrl_def demo_externals_def)

lemma demo_transactions_url:
  "getTransactionsUrl demo_externals s m =
     (s, [(ascii ''reqName'', ascii ''CardsTransactionsList''), (ascii ''month'', month_string m),
          (ascii ''year'', number_to_string (Integer (m div 12))),
          (ascii ''requiredDate'', ascii ''N'')])"
  by (simp add: getTransactionsUrl_def buildUrl_def demo_externals_def month_string_def Let_def)

lemma demo_get_accounts:
  "fetchGetWithinPage (demo_page st) (getAccountsUrl demo_externals s m) =
     Some (dashboard_response st)"
  by (simp add: demo_accounts_url demo_page_def)

lemma request_names_differ:
  "ascii ''CardsTransactionsList'' \<noteq> ascii ''DashboardMonth''"
  "ascii ''month'' \<noteq> ascii ''reqName''"
  by (simp_all add: ascii_def)

lemma demo_get_transactions:
  "fetchGetWithinPage (demo_page st) (getTransactionsUrl demo_externals s m) =
     Some (transactions_response (month_string m))"
  by (simp add: demo_transactions_url demo_page_def request_names_differ)

lemma dashboard_status: "get_Header_Status (Some (dashboard_response st)) = Some st"
  by (simp add: get_Header_Status_def dashboard_response_def empty_response_def)

lemma transactions_status:
  "get_Header_Status (Some (transactions_response s)) = Some (ascii ''1'')"
  "CardsTransactionsListBean (transactions_response s) \<noteq> None"
  by (simp_all add: get_Header_Status_def transactions_response_def empty_response_def)

lemma parseInt10_zero: "parseInt10 (ascii ''0'') = Integer 0"
  by (simp add: parseInt10_def ascii_def is_white_space_def is_digit_def decimal_value_def
      nearest_double_exact)

lemma demo_fetchAccounts_ok:
  "fetchAccounts demo_externals (demo_page (ascii ''1'')) s m = Some [demo_account]"
proof -
  have bean: "DashboardMonthBean (dashboard_response st) =
      Some (DashboardBean (Some [\<lparr>cardIndex = ascii ''0'', cardNumber = ascii ''1234'',
                                  billingDate = ascii ''10/02/2020''\<rparr>]))" for st
    by (simp add: dashboard_response_def empty_response_def)
  have parse: "parseDateToISO demo_externals d = d" for d
    by (simp add: demo_externals_def)
  show ?thesis
    by (simp add: fetchAccounts_def demo_get_accounts dashboard_status bean parse parseInt10_zero
        demo_account_def)
qed

lemma demo_fetchAccounts_failed:
  "fetchAccounts demo_externals (demo_page (ascii ''0'')) s m = None"
proof -
  have "ascii ''0'' \<noteq> ascii ''1''" by (simp add: ascii_def)
  then show ?thesis
    by (simp add: fetchAccounts_def demo_get_accounts dashboard_status)
qed

lemma demo_groups:
  "get_CurrentCardTransactions (Some (transactions_response s)) (Integer 0) =
     Some [\<lparr>txnIsrael = Some [demo_txn s], txnAbroad = None\<rparr>]"
proof -
  have key: "ascii ''Index'' @ number_to_string (Integer 0) = ascii ''Index0''"
    by (simp add: number_to_string_def digits_of.simps ascii_def)
  show ?thesis
    by (simp add: get_CurrentCardTransactions_def key transactions_response_def empty_response_def)
qed

lemma demo_forEach_account:
  "forEach_account demo_externals (Some (transactions_response s)) demo_options start ([], [])
     demo_account =
   ([(ascii ''1234'',
      \<lparr>accountNumber = ascii ''1234'', txns = [demo_canonical s], index = Integer 0\<rparr>)],
    [FixInstallmentsCall [demo_canonical s],
     FilterOldTransactionsCall [demo_canonical s] start None])"
proof -
  have acc: "acc_index demo_account = Integer 0" "acc_accountNumber demo_account = ascii ''1234''"
    "acc_processedDate demo_account = Some (ascii ''10/02/2020'')"
    by (simp_all add: demo_account_def)
  have conv: "convertTransactions demo_externals [demo_txn s] (Some (ascii ''10/02/2020'')) =
      [demo_canonical s]"
    by (simp add: demo_convert demo_canonical_def)
  have all: "forEach_txnGroup demo_externals demo_account []
      \<lparr>txnIsrael = Some [demo_txn s], txnAbroad = None\<rparr> = [demo_canonical s]"
    by (simp add: forEach_txnGroup_def acc conv Let_def)
  have helpers: "fixInstallments demo_externals ts = ts"
    "filterOldTransactions demo_externals ts m c = ts" for ts m c
    by (simp_all add: demo_externals_def)
  have opts: "combineInstallments demo_options = None"
    by (simp add: demo_options_def)
  have key: "ascii ''1234'' \<noteq> ascii ''__proto__''"
    by (simp add: ascii_def)
  show ?thesis
    by (simp add: forEach_account_def acc demo_groups all helpers opts Let_def obj_assign_def key)
qed

lemma demo_fetchTransactions_ok:
  "fetchTransactions demo_externals (demo_page (ascii ''1'')) demo_options start m =
     (Inr (AccountTxns [(ascii ''1234'', demo_entry m)]),
      [FixInstallmentsCall [demo_canonical (month_string m)],
       FilterOldTransactionsCall [demo_canonical (month_string m)] start None])"
  by (simp add: fetchTransactions_def demo_fetchAccounts_ok demo_get_transactions
      transactions_status demo_forEach_account demo_entry_def Let_def)

lemma demo_fetchTransactions_failed:
  "fetchTransactions demo_externals (demo_page (ascii ''0'')) demo_options start m =
     (Inl TypeError, [])"
  by (simp add: fetchTransactions_def demo_fetchAccounts_failed demo_get_transactions
      transactions_status Let_def)

lemma demo_months: "getAllMonthMoments demo_externals (ValidMoment m) b = [m, m + 1]"
  by (simp add: demo_externals_def)

lemma demo_result_keys: "result_keys (AccountTxns [(ascii ''1234'', e)]) = [ascii ''1234'']"
proof -
  have "is_array_index (ascii ''1234'')"
    by (simp add: is_array_index_def ascii_def is_digit_def decimal_value_def)
  then show ?thesis
    by (simp add: result_keys_def obj_keys_def)
qed

lemma demo_forEach_result:
  "forEach_result [] (AccountTxns [(ascii ''1234'', demo_entry m)]) =
     Inr [(ascii ''1234'', [demo_canonical (month_string m)])]"
  "forEach_result [(ascii ''1234'', ts)] (AccountTxns [(ascii ''1234'', demo_entry m)]) =
     Inr [(ascii ''1234'', ts @ [demo_canonical (month_string m)])]"
proof -
  have key: "ascii ''1234'' \<noteq> ascii ''__proto__''" "ascii ''1234'' \<notin> set Object_prototype_names"
    by (simp_all add: ascii_def Object_prototype_names_def)
  show "forEach_result [] (AccountTxns [(ascii ''1234'', demo_entry m)]) =
     Inr [(ascii ''1234'', [demo_canonical (month_string m)])]"
    by (simp add: forEach_result_def demo_result_keys forEach_accountNumber_def result_get_def
        obj_get_def obj_assign_def key demo_entry_def)
  show "forEach_result [(ascii ''1234'', ts)] (AccountTxns [(ascii ''1234'', demo_entry m)]) =
     Inr [(ascii ''1234'', ts @ [demo_canonical (month_string m)])]"
    by (simp add: forEach_result_def demo_result_keys forEach_accountNumber_def result_get_def
        obj_get_def obj_assign_def key demo_entry_def)
qed

lemma demo_promise_all:
  "promise_all [Suc 0, 0] [Inr a, Inr b] = Some (Inr [a, b])"
  "promise_all [Suc 0, 0] [Inl e, Inl e'] = Some (Inl e')"
  "promise_all [Suc 0] [Inr a, Inr b] = None"
  by (simp_all add: promise_all_def)

lemma demo_fetchAllTransactions_ok:
  "fetchAllTransactions demo_externals (demo_page (ascii ''1'')) demo_options (ValidMoment start) [Suc 0, 0] =
     (Some (Inr \<lparr>success = True,
                 accounts = Some [\<lparr>accountNumber = ascii ''1234'',
                                   txns = [demo_canonical (month_string start),
                                           demo_canonical (month_string (start + 1))]\<rparr>],
                 errorType = None\<rparr>),
      [[FixInstallmentsCall [demo_canonical (month_string start)],
        FilterOldTransactionsCall [demo_canonical (month_string start)] (ValidMoment start) None],
       [FixInstallmentsCall [demo_canonical (month_string (start + 1))],
        FilterOldTransactionsCall [demo_canonical (month_string (start + 1))]
          (ValidMoment start) None]])"
proof -
  have keys: "obj_keys [(ascii ''1234'', ts)] = [ascii ''1234'']" for ts :: "Transaction list"
    using demo_result_keys [of "demo_entry 0"]
    by (simp add: result_keys_def obj_keys_def)
  show ?thesis
    by (simp add: fetchAllTransactions_def demo_months demo_fetchTransactions_ok demo_promise_all
        demo_forEach_result keys obj_get_def Let_def)
qed

lemma demo_fetchAllTransactions_failed:
  "fetchAllTransactions demo_externals (demo_page (ascii ''0'')) demo_options (ValidMoment start) [Suc 0, 0] =
     (Some (Inl TypeError), [[], []])"
  by (simp add: fetchAllTransactions_def demo_months demo_fetchTransactions_failed
      demo_promise_all Let_def)

section \<open>Properties of the merge and of Promise.all\<close>

lemma proto_in_names: "ascii ''__proto__'' \<in> set Object_prototype_names"
  by (simp add: Object_prototype_names_def)

lemma obj_get_assign:
  "k \<notin> set Object_prototype_names \<Longrightarrow>
   obj_get (obj_assign ob k v) a = (if a = k then Some v else obj_get ob a)"
  using proto_in_names by (auto simp: obj_get_def obj_assign_def update_conv')

lemma obj_assign_keys:
  "k \<notin> set Object_prototype_names \<Longrightarrow>
   fst ` set (obj_assign ob k v) = insert k (fst ` set ob)"
  using proto_in_names by (auto simp: obj_assign_def dom_update)

lemma obj_assign_distinct:
  "distinct (map fst ob) \<Longrightarrow> distinct (map fst (obj_assign ob k v))"
  by (simp add: obj_assign_def distinct_update)

lemma set_obj_keys: "set (obj_keys ob) = fst ` set ob"
  by (auto simp: obj_keys_def Let_def)

lemma distinct_obj_keys: "distinct (map fst ob) \<Longrightarrow> distinct (obj_keys ob)"
  by (auto simp: obj_keys_def Let_def)

lemma obj_get_None_iff: "obj_get ob k = None \<longleftrightarrow> k \<notin> fst ` set ob"
  by (simp add: obj_get_def map_of_eq_None_iff)

lemma set_result_keys:
  "set (result_keys r) = (case r of AccountTxns ob \<Rightarrow> fst ` set ob | EmptyArray \<Rightarrow> {})"
  by (simp add: result_keys_def set_obj_keys split: month_result.splits)

lemma result_get_key: "k \<in> set (result_keys r) \<Longrightarrow> result_get r k \<noteq> None"
  by (cases r) (simp_all add: set_result_keys result_get_def obj_get_None_iff)

lemma month_txns_not_key: "a \<notin> set (result_keys r) \<Longrightarrow> month_txns r a = []"
  by (cases r) (simp_all add: set_result_keys result_get_def month_txns_def obj_get_None_iff [symmetric])

lemma distinct_result_keys: "well_formed_result r \<Longrightarrow> distinct (result_keys r)"
  by (cases r) (simp_all add: well_formed_result_def result_keys_def distinct_obj_keys)

lemma forEach_accountNumber_loop:
  assumes "distinct ks" and "\<forall>k\<in>set ks. k \<notin> set Object_prototype_names"
    and "\<forall>k\<in>set ks. result_get r k \<noteq> None"
  shows "\<exists>c'. forEach_throwing (forEach_accountNumber r) ks c = Inr c' \<and>
           (\<forall>a. obj_get c' a =
                  (if a \<in> set ks
                   then Some ((case obj_get c a of None \<Rightarrow> [] | Some ts \<Rightarrow> ts) @ month_txns r a)
                   else obj_get c a)) \<and>
           fst ` set c' = fst ` set c \<union> set ks \<and>
           (distinct (map fst c) \<longrightarrow> distinct (map fst c'))"
  using assms
proof (induction ks arbitrary: c)
  case Nil
  then show ?case by simp
next
  case (Cons k ks)
  from Cons.prems obtain e where e: "result_get r k = Some e" by auto
  from Cons.prems have k: "k \<notin> set Object_prototype_names" "k \<notin> set ks" by auto
  define c1 where
    "c1 = obj_assign c k ((case obj_get c k of None \<Rightarrow> [] | Some ts \<Rightarrow> ts) @ txns e)"
  have step: "forEach_accountNumber r c k = Inr c1"
    using k(1) by (simp add: forEach_accountNumber_def e c1_def Let_def split: option.splits)
  have get1: "obj_get c1 a =
      (if a = k then Some ((case obj_get c k of None \<Rightarrow> [] | Some ts \<Rightarrow> ts) @ month_txns r k)
       else obj_get c a)" for a
    using k(1) by (simp add: c1_def obj_get_assign month_txns_def e)
  have keys1: "fst ` set c1 = insert k (fst ` set c)"
    using k(1) by (simp add: c1_def obj_assign_keys)
  have dist1: "distinct (map fst c) \<Longrightarrow> distinct (map fst c1)"
    by (simp add: c1_def obj_assign_distinct)
  from Cons.prems have "distinct ks" "\<forall>k\<in>set ks. k \<notin> set Object_prototype_names"
    "\<forall>k\<in>set ks. result_get r k \<noteq> None" by auto
  from Cons.IH [OF this, of c1] obtain c' where
    run: "forEach_throwing (forEach_accountNumber r) ks c1 = Inr c'" and
    get: "\<And>a. obj_get c' a =
                  (if a \<in> set ks
                   then Some ((case obj_get c1 a of None \<Rightarrow> [] | Some ts \<Rightarrow> ts) @ month_txns r a)
                   else obj_get c1 a)" and
    keys: "fst ` set c' = fst ` set c1 \<union> set ks" and
    dist: "distinct (map fst c1) \<longrightarrow> distinct (map fst c')"
    by blast
  have "forEach_throwing (forEach_accountNumber r) (k # ks) c = Inr c'"
    by (simp add: step run)
  moreover have "obj_get c' a =
                  (if a \<in> set (k # ks)
                   then Some ((case obj_get c a of None \<Rightarrow> [] | Some ts \<Rightarrow> ts) @ month_txns r a)
                   else obj_get c a)" for a
    using k(2) by (auto simp: get get1)
  moreover have "fst ` set c' = fst ` set c \<union> set (k # ks)"
    by (auto simp: keys keys1)
  moreover have "distinct (map fst c) \<longrightarrow> distinct (map fst c')"
    using dist dist1 by blast
  ultimately show ?case by blast
qed

lemma forEach_result_step:
  assumes "well_formed_result r" and "\<forall>k\<in>set (result_keys r). k \<notin> set Object_prototype_names"
  shows "\<exists>c'. forEach_result c r = Inr c' \<and>
           (\<forall>a. obj_get c' a =
                  (if a \<in> set (result_keys r)
                   then Some ((case obj_get c a of None \<Rightarrow> [] | Some ts \<Rightarrow> ts) @ month_txns r a)
                   else obj_get c a)) \<and>
           fst ` set c' = fst ` set c \<union> set (result_keys r) \<and>
           (distinct (map fst c) \<longrightarrow> distinct (map fst c'))"
  unfolding forEach_result_def
  using forEach_accountNumber_loop [OF distinct_result_keys [OF assms(1)] assms(2), of r c]
    result_get_key [of _ r]
  by blast

lemma forEach_result_loop:
  assumes "\<forall>r\<in>set rs. well_formed_result r \<and>
             (\<forall>k\<in>set (result_keys r). k \<notin> set Object_prototype_names)"
  shows "\<exists>c'. forEach_throwing forEach_result rs c = Inr c' \<and>
           (\<forall>a. obj_get c' a =
                  (if \<exists>r\<in>set rs. a \<in> set (result_keys r)
                   then Some ((case obj_get c a of None \<Rightarrow> [] | Some ts \<Rightarrow> ts) @
                              concat (map (\<lambda>r. month_txns r a) rs))
                   else obj_get c a)) \<and>
           fst ` set c' = fst ` set c \<union> (\<Union>r\<in>set rs. set (result_keys r)) \<and>
           (distinct (map fst c) \<longrightarrow> distinct (map fst c'))"
  using assms
proof (induction rs arbitrary: c)
  case Nil
  then show ?case by simp
next
  case (Cons r rs)
  from Cons.prems have r: "well_formed_result r"
    "\<forall>k\<in>set (result_keys r). k \<notin> set Object_prototype_names" by auto
  from forEach_result_step [OF r, of c] obtain c1 where
    step: "forEach_result c r = Inr c1" and
    get1: "\<And>a. obj_get c1 a =
                  (if a \<in> set (result_keys r)
                   then Some ((case obj_get c a of None \<Rightarrow> [] | Some ts \<Rightarrow> ts) @ month_txns r a)
                   else obj_get c a)" and
    keys1: "fst ` set c1 = fst ` set c \<union> set (result_keys r)" and
    dist1: "distinct (map fst c) \<longrightarrow> distinct (map fst c1)"
    by blast
  from Cons.prems have "\<forall>r\<in>set rs. well_formed_result r \<and>
             (\<forall>k\<in>set (result_keys r). k \<notin> set Object_prototype_names)" by auto
  from Cons.IH [OF this, of c1] obtain c' where
    run: "forEach_throwing forEach_result rs c1 = Inr c'" and
    get: "\<And>a. obj_get c' a =
                  (if \<exists>r\<in>set rs. a \<in> set (result_keys r)
                   then Some ((case obj_get c1 a of None \<Rightarrow> [] | Some ts \<Rightarrow> ts) @
                              concat (map (\<lambda>r. month_txns r a) rs))
                   else obj_get c1 a)" and
    keys: "fst ` set c' = fst ` set c1 \<union> (\<Union>r\<in>set rs. set (result_keys r))" and
    dist: "distinct (map fst c1) \<longrightarrow> distinct (map fst c')"
    by blast
  have none: "concat (map (\<lambda>r. month_txns r a) rs) = []"
    if "\<not> (\<exists>r\<in>set rs. a \<in> set (result_keys r))" for a
    using that by (simp add: month_txns_not_key)
  have "forEach_throwing forEach_result (r # rs) c = Inr c'"
    by (simp add: step run)
  moreover have "obj_get c' a =
                  (if \<exists>r\<in>set (r # rs). a \<in> set (result_keys r)
                   then Some ((case obj_get c a of None \<Rightarrow> [] | Some ts \<Rightarrow> ts) @
                              concat (map (\<lambda>r. month_txns r a) (r # rs)))
                   else obj_get c a)" for a
  proof (cases "a \<in> set (result_keys r)")
    case True
    then show ?thesis
      using none [of a] by (cases "\<exists>r\<in>set rs. a \<in> set (result_keys r)") (simp_all add: get get1)
  next
    case False
    then show ?thesis
      by (simp add: get get1 month_txns_not_key)
  qed
  moreover have "fst ` set c' = fst ` set c \<union> (\<Union>r\<in>set (r # rs). set (result_keys r))"
    by (auto simp: keys keys1)
  moreover have "distinct (map fst c) \<longrightarrow> distinct (map fst c')"
    using dist dist1 by blast
  ultimately show ?case by blast
qed

lemma forEach_account_distinct:
  "distinct (map fst (fst st)) \<Longrightarrow>
   distinct (map fst (fst (forEach_account ext d opts start st account)))"
  by (simp add: forEach_account_def Let_def obj_assign_distinct split: option.splits)

lemma foldl_forEach_account_distinct:
  "distinct (map fst (fst st)) \<Longrightarrow>
   distinct (map fst (fst (foldl (forEach_account ext d opts start) st accs)))"
  by (induction accs arbitrary: st) (simp_all add: forEach_account_distinct)

lemma fetchTransactions_well_formed:
  "fst (fetchTransactions ext pg opts start m) = Inr res \<Longrightarrow> well_formed_result res"
  by (auto simp: fetchTransactions_def Let_def well_formed_result_def
      foldl_forEach_account_distinct split: if_splits option.splits)

lemma those_map_Some: "those (map Some xs) = Some xs"
  by (induction xs) simp_all

lemma promise_all_from_values:
  assumes "length slots = length vs" and "length outs = length vs"
    and "\<forall>i<length vs. outs ! i = Inr (vs ! i)"
    and "\<forall>i<length vs. slots ! i = None \<or> slots ! i = Some (vs ! i)"
    and "\<forall>i<length vs. i \<in> set is \<or> slots ! i = Some (vs ! i)"
  shows "promise_all_from outs is slots = Some (Inr vs)"
  using assms
proof (induction "is" arbitrary: slots)
  case Nil
  then have "slots = map Some vs"
    by (simp add: list_eq_iff_nth_eq)
  then show ?case by (simp add: those_map_Some)
next
  case (Cons i rest)
  show ?case
  proof (cases "i < length outs")
    case True
    with Cons.prems have out: "outs ! i = Inr (vs ! i)" by simp
    have "promise_all_from outs rest (slots[i := Some (vs ! i)]) = Some (Inr vs)"
    proof (rule Cons.IH)
      show "length (slots[i := Some (vs ! i)]) = length vs" using Cons.prems by simp
      show "length outs = length vs" using Cons.prems by simp
      show "\<forall>i<length vs. outs ! i = Inr (vs ! i)" using Cons.prems by simp
      show "\<forall>j<length vs. slots[i := Some (vs ! i)] ! j = None \<or>
              slots[i := Some (vs ! i)] ! j = Some (vs ! j)"
      proof (intro allI impI)
        fix j assume j: "j < length vs"
        show "slots[i := Some (vs ! i)] ! j = None \<or>
              slots[i := Some (vs ! i)] ! j = Some (vs ! j)"
        proof (cases "j = i")
          case True
          with j Cons.prems(1) show ?thesis by simp
        next
          case False
          with j Cons.prems(4) show ?thesis by simp
        qed
      qed
      show "\<forall>j<length vs. j \<in> set rest \<or> slots[i := Some (vs ! i)] ! j = Some (vs ! j)"
      proof (intro allI impI)
        fix j assume j: "j < length vs"
        show "j \<in> set rest \<or> slots[i := Some (vs ! i)] ! j = Some (vs ! j)"
        proof (cases "j = i")
          case True
          with j Cons.prems(1) show ?thesis by simp
        next
          case False
          with j Cons.prems(5) show ?thesis by auto
        qed
      qed
    qed
    with True out show ?thesis by simp
  next
    case False
    have "promise_all_from outs rest slots = Some (Inr vs)"
    proof (rule Cons.IH)
      show "length slots = length vs" "length outs = length vs"
        "\<forall>i<length vs. outs ! i = Inr (vs ! i)"
        "\<forall>i<length vs. slots ! i = None \<or> slots ! i = Some (vs ! i)"
        using Cons.prems by simp_all
      show "\<forall>j<length vs. j \<in> set rest \<or> slots ! j = Some (vs ! j)"
        using Cons.prems False by auto
    qed
    with False show ?thesis by simp
  qed
qed

lemma promise_all_values:
  assumes "{..<length vs} \<subseteq> set completion"
  shows "promise_all completion (map Inr vs) = Some (Inr vs)"
  unfolding promise_all_def
  using assms by (intro promise_all_from_values) auto

section \<open>Properties of the aggregator and of the fetcher\<close>

text \<open>
  The merge of the monthly results, for months that all complete with a result.
\<close>

lemma fetchAllTransactions_merged:
  assumes complete: "{..<length (getAllMonthMoments ext start True)} \<subseteq> set completion"
    and fetched: "\<forall>m\<in>set (getAllMonthMoments ext start True).
        \<exists>res. fst (fetchTransactions ext pg opts start m) = Inr res \<and>
              (\<forall>k\<in>set (result_keys res). k \<notin> set Object_prototype_names)"
  shows "\<exists>accs.
           fst (fetchAllTransactions ext pg opts start completion) =
             Some (Inr \<lparr>success = True, accounts = Some accs, errorType = None\<rparr>) \<and>
           distinct (map accountNumber accs) \<and>
           set (map accountNumber accs) =
             (\<Union>m\<in>set (getAllMonthMoments ext start True).
                set (result_keys (fetched_result ext pg opts start m))) \<and>
           (\<forall>acc\<in>set accs.
              txns acc =
                concat (map (\<lambda>m. month_txns (fetched_result ext pg opts start m)
                                    (accountNumber acc))
                            (getAllMonthMoments ext start True)))"
proof -
  define months where "months = getAllMonthMoments ext start True"
  define results where "results = map (fetched_result ext pg opts start) months"
  have each: "fst (fetchTransactions ext pg opts start m) = Inr (fetched_result ext pg opts start m)
      \<and> well_formed_result (fetched_result ext pg opts start m)
      \<and> (\<forall>k\<in>set (result_keys (fetched_result ext pg opts start m)).
            k \<notin> set Object_prototype_names)"
    if "m \<in> set months" for m
  proof -
    from that fetched obtain res where
      res: "fst (fetchTransactions ext pg opts start m) = Inr res"
        "\<forall>k\<in>set (result_keys res). k \<notin> set Object_prototype_names"
      unfolding months_def by blast
    then have "fetched_result ext pg opts start m = res"
      by (simp add: fetched_result_def)
    with res fetchTransactions_well_formed [OF res(1)] show ?thesis by simp
  qed
  have outs: "map (fst \<circ> fetchTransactions ext pg opts start) months = map Inr results"
    unfolding results_def using each by simp
  have "{..<length results} \<subseteq> set completion"
    using complete by (simp add: results_def months_def)
  then have settled: "promise_all completion (map Inr results) = Some (Inr results)"
    by (rule promise_all_values)
  have "\<forall>r\<in>set results. well_formed_result r \<and>
             (\<forall>k\<in>set (result_keys r). k \<notin> set Object_prototype_names)"
    unfolding results_def using each by auto
  from forEach_result_loop [OF this, of "[]"] obtain c' where
    run: "forEach_throwing forEach_result results [] = Inr c'" and
    get: "\<And>a. obj_get c' a =
                  (if \<exists>r\<in>set results. a \<in> set (result_keys r)
                   then Some (concat (map (\<lambda>r. month_txns r a) results))
                   else None)" and
    keys: "fst ` set c' = (\<Union>r\<in>set results. set (result_keys r))" and
    dist: "distinct (map fst c')"
    by (auto simp: obj_get_def)
  define accs where
    "accs = map (\<lambda>accNumber.
                   \<lparr>accountNumber = accNumber,
                    txns = (case obj_get c' accNumber of None \<Rightarrow> [] | Some ts \<Rightarrow> ts)\<rparr>)
                (obj_keys c')"
  have returned: "fst (fetchAllTransactions ext pg opts start completion) =
             Some (Inr \<lparr>success = True, accounts = Some accs, errorType = None\<rparr>)"
    by (simp add: fetchAllTransactions_def Let_def months_def [symmetric] outs settled run
        accs_def)
  have names: "map accountNumber accs = obj_keys c'"
    by (simp add: accs_def comp_def)
  have "distinct (map accountNumber accs)"
    by (simp add: names distinct_obj_keys dist)
  moreover have "set (map accountNumber accs) =
             (\<Union>m\<in>set months. set (result_keys (fetched_result ext pg opts start m)))"
    by (simp add: names set_obj_keys keys results_def)
  moreover have "txns acc =
                concat (map (\<lambda>m. month_txns (fetched_result ext pg opts start m)
                                    (accountNumber acc)) months)"
    if "acc \<in> set accs" for acc
  proof -
    from that obtain k where k: "k \<in> set (obj_keys c')" and
      acc: "acc = \<lparr>accountNumber = k,
                   txns = (case obj_get c' k of None \<Rightarrow> [] | Some ts \<Rightarrow> ts)\<rparr>"
      by (auto simp: accs_def)
    from k have "\<exists>r\<in>set results. k \<in> set (result_keys r)"
      by (simp add: set_obj_keys keys)
    then have "obj_get c' k = Some (concat (map (\<lambda>r. month_txns r k) results))"
      by (simp add: get)
    then show ?thesis
      by (simp add: acc results_def comp_def)
  qed
  ultimately show ?thesis
    using returned unfolding months_def by blast
qed

text \<open>
  C7. Let every month's fetch complete, in any order, and return a result, with no
  account number that names a member of \<open>Object.prototype\<close>. Then
  \<open>fetchAllTransactions\<close> returns, with every account number of the months once, and
  the transactions of each account are the month results' transactions for that account
  concatenated in the order of the month sequence computed up front: the completion
  order does not occur in the result.
\<close>

theorem fetchAllTransactions_month_order:
  assumes complete: "{..<length (getAllMonthMoments ext start True)} \<subseteq> set completion"
    and fetched: "\<forall>m\<in>set (getAllMonthMoments ext start True).
        \<exists>res. fst (fetchTransactions ext pg opts start m) = Inr res \<and>
              (\<forall>k\<in>set (result_keys res). k \<notin> set Object_prototype_names)"
  shows "\<exists>accs.
           fst (fetchAllTransactions ext pg opts start completion) =
             Some (Inr \<lparr>success = True, accounts = Some accs, errorType = None\<rparr>) \<and>
           distinct (map accountNumber accs) \<and>
           set (map accountNumber accs) =
             (\<Union>m\<in>set (getAllMonthMoments ext start True).
                set (result_keys (fetched_result ext pg opts start m))) \<and>
           (\<forall>acc\<in>set accs.
              txns acc =
                concat (map (\<lambda>m. month_txns (fetched_result ext pg opts start m)
                                    (accountNumber acc))
                            (getAllMonthMoments ext start True)))"
  using complete fetched by (rule fetchAllTransactions_merged)

lemma month_strings: "month_string 24240 = ascii ''01''" "month_string 24241 = ascii ''02''"
  by (simp_all add: month_string_def digits_of.simps ascii_def)

lemma demo_key_not_inherited: "ascii ''1234'' \<notin> set Object_prototype_names"
  by (simp add: ascii_def Object_prototype_names_def)

text \<open>
  C7, at two months whose fetches complete in the reverse order: the first month's
  purchase comes first.
\<close>

theorem fetchAllTransactions_month_order_witness:
  "fst (fetchAllTransactions demo_externals (demo_page (ascii ''1'')) demo_options (ValidMoment 24240) [1, 0]) =
     Some (Inr \<lparr>success = True,
                accounts = Some [\<lparr>accountNumber = ascii ''1234'',
                                  txns = [demo_canonical (ascii ''01''),
                                          demo_canonical (ascii ''02'')]\<rparr>],
                errorType = None\<rparr>) \<and>
   [demo_canonical (ascii ''01''), demo_canonical (ascii ''02'')] =
     concat (map (\<lambda>m. month_txns
                         (fetched_result demo_externals (demo_page (ascii ''1'')) demo_options
                            (ValidMoment 24240) m)
                         (ascii ''1234''))
                 [24240, 24241])"
proof -
  let ?acc = "\<lparr>accountNumber = ascii ''1234'',
               txns = [demo_canonical (ascii ''01''), demo_canonical (ascii ''02'')]\<rparr>"
  have run: "fst (fetchAllTransactions demo_externals (demo_page (ascii ''1'')) demo_options
                (ValidMoment 24240) [1, 0]) =
     Some (Inr \<lparr>success = True, accounts = Some [?acc], errorType = None\<rparr>)"
    using month_strings by (simp add: demo_fetchAllTransactions_ok)
  have complete: "{..<length (getAllMonthMoments demo_externals (ValidMoment 24240) True)} \<subseteq> set [1, 0]"
    by (auto simp: demo_months)
  have fetched: "\<forall>m\<in>set (getAllMonthMoments demo_externals (ValidMoment 24240) True).
        \<exists>res. fst (fetchTransactions demo_externals (demo_page (ascii ''1'')) demo_options
                     (ValidMoment 24240) m) = Inr res \<and>
              (\<forall>k\<in>set (result_keys res). k \<notin> set Object_prototype_names)"
    by (simp add: demo_fetchTransactions_ok demo_result_keys demo_key_not_inherited)
  from fetchAllTransactions_month_order [OF complete fetched] obtain accs where
    accs: "fst (fetchAllTransactions demo_externals (demo_page (ascii ''1'')) demo_options
                  (ValidMoment 24240) [1, 0]) =
             Some (Inr \<lparr>success = True, accounts = Some accs, errorType = None\<rparr>)"
    and months: "\<forall>acc\<in>set accs.
              txns acc =
                concat (map (\<lambda>m. month_txns
                                    (fetched_result demo_externals (demo_page (ascii ''1''))
                                       demo_options (ValidMoment 24240) m)
                                    (accountNumber acc))
                            (getAllMonthMoments demo_externals (ValidMoment 24240) True))"
    by blast
  from accs run have "accs = [?acc]" by simp
  with months have "txns ?acc =
      concat (map (\<lambda>m. month_txns
                          (fetched_result demo_externals (demo_page (ascii ''1''))
                             demo_options (ValidMoment 24240) m)
                          (accountNumber ?acc))
                  (getAllMonthMoments demo_externals (ValidMoment 24240) True))"
    by simp
  then have "[demo_canonical (ascii ''01''), demo_canonical (ascii ''02'')] =
     concat (map (\<lambda>m. month_txns
                         (fetched_result demo_externals (demo_page (ascii ''1'')) demo_options
                            (ValidMoment 24240) m)
                         (ascii ''1234''))
                 [24240, 24241])"
    by (simp add: demo_months)
  with run show ?thesis by blast
qed

lemma foldl_forEach_txnGroup:
  "foldl (forEach_txnGroup ext account) ts groups = ts @ month_local_txns ext account groups"
  by (induction groups arbitrary: ts)
    (simp_all add: month_local_txns_def forEach_txnGroup_def Let_def split: option.splits)

lemma forEach_account_filter_calls:
  "filter is_filter_call (snd (forEach_account ext d opts start st account)) =
     filter is_filter_call (snd st) @ expected_filter_calls ext d opts start account"
  by (simp add: forEach_account_def expected_filter_calls_def Let_def foldl_forEach_txnGroup
      is_filter_call_def split: option.splits)

lemma foldl_forEach_account_filter_calls:
  "filter is_filter_call (snd (foldl (forEach_account ext d opts start) st accs)) =
     filter is_filter_call (snd st) @
     concat (map (expected_filter_calls ext d opts start) accs)"
  by (induction accs arbitrary: st) (simp_all add: forEach_account_filter_calls)

lemma set_update_subset: "set (AList.update k v al) \<subseteq> insert (k, v) (set al)"
  by (induction al) auto

lemma forEach_account_entries:
  assumes old: "\<forall>(k, e)\<in>set (fst st). R k e"
    and new: "\<And>groups. get_CurrentCardTransactions d (acc_index account) = Some groups \<Longrightarrow>
           R (acc_accountNumber account)
             \<lparr>accountNumber = acc_accountNumber account,
              txns = filtered_month_txns ext opts start account groups,
              index = acc_index account\<rparr>"
  shows "\<forall>(k, e)\<in>set (fst (forEach_account ext d opts start st account)). R k e"
proof (cases "get_CurrentCardTransactions d (acc_index account)")
  case None
  then show ?thesis
    using old by (simp add: forEach_account_def)
next
  case (Some groups)
  define entry where
    "entry = \<lparr>accountNumber = acc_accountNumber account,
              txns = filtered_month_txns ext opts start account groups,
              index = acc_index account\<rparr>"
  have step: "fst (forEach_account ext d opts start st account) =
      obj_assign (fst st) (acc_accountNumber account) entry"
    by (simp add: forEach_account_def Some Let_def foldl_forEach_txnGroup
        filtered_month_txns_def entry_def)
  have "set (obj_assign (fst st) (acc_accountNumber account) entry) \<subseteq>
      insert (acc_accountNumber account, entry) (set (fst st))"
    using set_update_subset [of "acc_accountNumber account" entry "fst st"]
    by (auto simp: obj_assign_def)
  moreover have "R (acc_accountNumber account) entry"
    unfolding entry_def using Some by (rule new)
  ultimately show ?thesis
    using old unfolding step by auto
qed

lemma foldl_forEach_account_entries:
  assumes "\<forall>(k, e)\<in>set (fst st). R k e"
    and "\<And>account groups. account \<in> set accs \<Longrightarrow>
           get_CurrentCardTransactions d (acc_index account) = Some groups \<Longrightarrow>
           R (acc_accountNumber account)
             \<lparr>accountNumber = acc_accountNumber account,
              txns = filtered_month_txns ext opts start account groups,
              index = acc_index account\<rparr>"
  shows "\<forall>(k, e)\<in>set (fst (foldl (forEach_account ext d opts start) st accs)). R k e"
  using assms
proof (induction accs arbitrary: st)
  case Nil
  then show ?case by simp
next
  case (Cons account accs)
  have "\<forall>(k, e)\<in>set (fst (forEach_account ext d opts start st account)). R k e"
    using Cons.prems(1) by (rule forEach_account_entries) (simp add: Cons.prems(2))
  then have "\<forall>(k, e)\<in>set (fst (foldl (forEach_account ext d opts start)
                                    (forEach_account ext d opts start st account) accs)). R k e"
    by (rule Cons.IH) (simp add: Cons.prems(2))
  then show ?case by simp
qed

lemma fetched_result_cases:
  "fetched_result ext pg opts start m = EmptyArray \<or>
   (\<exists>accs. fetchAccounts ext pg (servicesUrl opts) m = Some accs \<and>
      fetched_result ext pg opts start m =
        AccountTxns (fst (foldl (forEach_account ext
                                   (fetchGetWithinPage pg
                                      (getTransactionsUrl ext (servicesUrl opts) m))
                                   opts start) ([], []) accs)))"
  by (simp add: fetched_result_def fetchTransactions_def Let_def split: option.splits)

lemma month_txns_filtered:
  assumes key: "a \<in> set (result_keys (fetched_result ext pg opts start m))"
  shows "\<exists>account\<in>set (case fetchAccounts ext pg (servicesUrl opts) m of
                         None \<Rightarrow> []
                       | Some accs \<Rightarrow> accs).
           \<exists>groups.
             get_CurrentCardTransactions
               (fetchGetWithinPage pg (getTransactionsUrl ext (servicesUrl opts) m))
               (acc_index account) = Some groups \<and>
             acc_accountNumber account = a \<and>
             month_txns (fetched_result ext pg opts start m) a =
               filtered_month_txns ext opts start account groups"
proof -
  define d where "d = fetchGetWithinPage pg (getTransactionsUrl ext (servicesUrl opts) m)"
  from key have "fetched_result ext pg opts start m \<noteq> EmptyArray"
    by (auto simp: result_keys_def)
  with fetched_result_cases [of ext pg opts start m] obtain accs where
    accs: "fetchAccounts ext pg (servicesUrl opts) m = Some accs" and
    res: "fetched_result ext pg opts start m =
            AccountTxns (fst (foldl (forEach_account ext d opts start) ([], []) accs))"
    unfolding d_def by blast
  define ob where "ob = fst (foldl (forEach_account ext d opts start) ([], []) accs)"
  have entries: "\<forall>(k, e)\<in>set ob.
      \<exists>account\<in>set accs. \<exists>groups.
        get_CurrentCardTransactions d (acc_index account) = Some groups \<and>
        acc_accountNumber account = k \<and>
        txns e = filtered_month_txns ext opts start account groups"
    unfolding ob_def by (rule foldl_forEach_account_entries) auto
  from key res have "a \<in> fst ` set ob"
    by (simp add: set_result_keys ob_def)
  then obtain e where e: "map_of ob a = Some e"
    by (metis map_of_eq_None_iff not_Some_eq)
  then have "(a, e) \<in> set ob"
    by (rule map_of_SomeD)
  with entries obtain account groups where
    found: "account \<in> set accs"
      "get_CurrentCardTransactions d (acc_index account) = Some groups"
      "acc_accountNumber account = a"
      "txns e = filtered_month_txns ext opts start account groups"
    by blast
  have "month_txns (fetched_result ext pg opts start m) a = txns e"
    using e by (simp add: month_txns_def res result_get_def obj_get_def ob_def)
  with found show ?thesis
    unfolding d_def by (auto simp: accs)
qed

text \<open>
  C4, as the code has it. The helper calls of \<open>fetchAllTransactions\<close> are those of its
  monthly fetches and no others. A monthly fetch that returns the accounts object calls
  \<open>filterOldTransactions\<close> once for every resolved account with transaction groups in
  that month, on that account's month-local list, and a monthly fetch that returns the
  empty array or throws calls it not at all. What a month's result holds under an
  account number is what \<open>filterOldTransactions\<close> returned for an account of that
  number in that month. When every month's fetch completes with a result (and no
  account number names a member of \<open>Object.prototype\<close>), the ledger returned for an
  account is the concatenation of those month values in the order of the month
  sequence: the merged ledger is not filtered again.
\<close>

theorem filterOldTransactions_call_sites:
  "snd (fetchAllTransactions ext pg opts start completion) =
     map (\<lambda>m. snd (fetchTransactions ext pg opts start m)) (getAllMonthMoments ext start True) \<and>
   filter is_filter_call (snd (fetchTransactions ext pg opts start m)) =
     (case fst (fetchTransactions ext pg opts start m) of
        Inr (AccountTxns ob) \<Rightarrow>
          concat (map (expected_filter_calls ext
                         (fetchGetWithinPage pg (getTransactionsUrl ext (servicesUrl opts) m))
                         opts start)
                      (case fetchAccounts ext pg (servicesUrl opts) m of
                         None \<Rightarrow> []
                       | Some accs \<Rightarrow> accs))
      | _ \<Rightarrow> []) \<and>
   (\<forall>a\<in>set (result_keys (fetched_result ext pg opts start m)).
      \<exists>account\<in>set (case fetchAccounts ext pg (servicesUrl opts) m of
                        None \<Rightarrow> []
                      | Some accs \<Rightarrow> accs).
        \<exists>groups.
          get_CurrentCardTransactions
            (fetchGetWithinPage pg (getTransactionsUrl ext (servicesUrl opts) m))
            (acc_index account) = Some groups \<and>
          acc_accountNumber account = a \<and>
          month_txns (fetched_result ext pg opts start m) a =
            filtered_month_txns ext opts start account groups) \<and>
   ({..<length (getAllMonthMoments ext start True)} \<subseteq> set completion \<and>
    (\<forall>m\<in>set (getAllMonthMoments ext start True).
       \<exists>res. fst (fetchTransactions ext pg opts start m) = Inr res \<and>
             (\<forall>k\<in>set (result_keys res). k \<notin> set Object_prototype_names)) \<longrightarrow>
    (\<exists>accs.
       fst (fetchAllTransactions ext pg opts start completion) =
         Some (Inr \<lparr>success = True, accounts = Some accs, errorType = None\<rparr>) \<and>
       (\<forall>acc\<in>set accs.
          txns acc =
            concat (map (\<lambda>m. month_txns (fetched_result ext pg opts start m)
                                (accountNumber acc))
                        (getAllMonthMoments ext start True)))))"
proof (intro conjI ballI impI)
  show "snd (fetchAllTransactions ext pg opts start completion) =
     map (\<lambda>m. snd (fetchTransactions ext pg opts start m)) (getAllMonthMoments ext start True)"
    by (simp add: fetchAllTransactions_def Let_def comp_def)
  show "filter is_filter_call (snd (fetchTransactions ext pg opts start m)) =
     (case fst (fetchTransactions ext pg opts start m) of
        Inr (AccountTxns ob) \<Rightarrow>
          concat (map (expected_filter_calls ext
                         (fetchGetWithinPage pg (getTransactionsUrl ext (servicesUrl opts) m))
                         opts start)
                      (case fetchAccounts ext pg (servicesUrl opts) m of
                         None \<Rightarrow> []
                       | Some accs \<Rightarrow> accs))
      | _ \<Rightarrow> [])"
    by (simp add: fetchTransactions_def Let_def foldl_forEach_account_filter_calls
        split: option.splits)
next
  fix a
  assume "a \<in> set (result_keys (fetched_result ext pg opts start m))"
  then show "\<exists>account\<in>set (case fetchAccounts ext pg (servicesUrl opts) m of
                         None \<Rightarrow> []
                       | Some accs \<Rightarrow> accs).
        \<exists>groups.
          get_CurrentCardTransactions
            (fetchGetWithinPage pg (getTransactionsUrl ext (servicesUrl opts) m))
            (acc_index account) = Some groups \<and>
          acc_accountNumber account = a \<and>
          month_txns (fetched_result ext pg opts start m) a =
            filtered_month_txns ext opts start account groups"
    by (rule month_txns_filtered)
next
  assume hyps: "{..<length (getAllMonthMoments ext start True)} \<subseteq> set completion \<and>
    (\<forall>m\<in>set (getAllMonthMoments ext start True).
       \<exists>res. fst (fetchTransactions ext pg opts start m) = Inr res \<and>
             (\<forall>k\<in>set (result_keys res). k \<notin> set Object_prototype_names))"
  then have complete: "{..<length (getAllMonthMoments ext start True)} \<subseteq> set completion"
    and fetched: "\<forall>m\<in>set (getAllMonthMoments ext start True).
       \<exists>res. fst (fetchTransactions ext pg opts start m) = Inr res \<and>
             (\<forall>k\<in>set (result_keys res). k \<notin> set Object_prototype_names)"
    by blast+
  from fetchAllTransactions_merged [OF complete fetched]
  show "\<exists>accs.
       fst (fetchAllTransactions ext pg opts start completion) =
         Some (Inr \<lparr>success = True, accounts = Some accs, errorType = None\<rparr>) \<and>
       (\<forall>acc\<in>set accs.
          txns acc =
            concat (map (\<lambda>m. month_txns (fetched_result ext pg opts start m)
                                (accountNumber acc))
                        (getAllMonthMoments ext start True)))"
    by blast
qed

lemma filtering_helpers:
  "fixInstallments filtering_externals ts = map (\<lambda>t. t\<lparr>memo := ascii ''fixed''\<rparr>) ts"
  "filterOldTransactions filtering_externals ts s c =
     filter (\<lambda>t. description t \<noteq> ascii ''01'') ts"
  "getAllMonthMoments filtering_externals (ValidMoment m) b = [m, m + 1, m + 2]"
  by (simp_all add: filtering_externals_def)

lemma filtering_same_requests:
  "getTransactionsUrl filtering_externals s m = getTransactionsUrl demo_externals s m"
  "fetchAccounts filtering_externals pg s m = fetchAccounts demo_externals pg s m"
  "convertTransactions filtering_externals raws p = convertTransactions demo_externals raws p"
proof -
  have fields: "parseDateToISO filtering_externals = parseDateToISO demo_externals"
    "formatBillingDate filtering_externals = formatBillingDate demo_externals"
    "monthOf filtering_externals = monthOf demo_externals"
    "yearOf filtering_externals = yearOf demo_externals"
    "SHEKEL_CURRENCY_KEYWORD filtering_externals = SHEKEL_CURRENCY_KEYWORD demo_externals"
    "ALT_SHEKEL_CURRENCY filtering_externals = ALT_SHEKEL_CURRENCY demo_externals"
    "SHEKEL_CURRENCY filtering_externals = SHEKEL_CURRENCY demo_externals"
    by (simp_all add: filtering_externals_def)
  show "getTransactionsUrl filtering_externals s m = getTransactionsUrl demo_externals s m"
    by (simp add: getTransactionsUrl_def fields)
  show "fetchAccounts filtering_externals pg s m = fetchAccounts demo_externals pg s m"
    by (simp add: fetchAccounts_def getAccountsUrl_def fields Let_def
        cong: option.case_cong if_cong)
  show "convertTransactions filtering_externals raws p =
      convertTransactions demo_externals raws p"
    by (simp add: convertTransactions_def convertCurrency_def fields)
qed

lemma fixed_canonical_description: "description (fixed_canonical s) = s"
  by (simp add: fixed_canonical_def demo_canonical_def)

lemma filtering_forEach_account:
  "forEach_account filtering_externals (Some (transactions_response s)) demo_options start
     ([], []) demo_account =
   ([(ascii ''1234'',
      \<lparr>accountNumber = ascii ''1234'',
       txns = (if s = ascii ''01'' then [] else [fixed_canonical s]),
       index = Integer 0\<rparr>)],
    [FixInstallmentsCall [demo_canonical s],
     FilterOldTransactionsCall [fixed_canonical s] start None])"
proof -
  have acc: "acc_index demo_account = Integer 0" "acc_accountNumber demo_account = ascii ''1234''"
    "acc_processedDate demo_account = Some (ascii ''10/02/2020'')"
    by (simp_all add: demo_account_def)
  have conv: "convertTransactions filtering_externals [demo_txn s] (Some (ascii ''10/02/2020'')) =
      [demo_canonical s]"
    by (simp add: filtering_same_requests demo_convert demo_canonical_def)
  have all: "forEach_txnGroup filtering_externals demo_account []
      \<lparr>txnIsrael = Some [demo_txn s], txnAbroad = None\<rparr> = [demo_canonical s]"
    by (simp add: forEach_txnGroup_def acc conv Let_def)
  have fixed: "fixInstallments filtering_externals [demo_canonical s] = [fixed_canonical s]"
    by (simp add: filtering_helpers fixed_canonical_def)
  have kept: "filterOldTransactions filtering_externals [fixed_canonical s] start None =
      (if s = ascii ''01'' then [] else [fixed_canonical s])"
    by (simp add: filtering_helpers fixed_canonical_description)
  have opts: "combineInstallments demo_options = None"
    by (simp add: demo_options_def)
  have key: "ascii ''1234'' \<noteq> ascii ''__proto__''"
    by (simp add: ascii_def)
  show ?thesis
    by (simp add: forEach_account_def acc demo_groups all fixed kept opts Let_def obj_assign_def
        key)
qed

lemma filtering_fetchTransactions:
  "fetchTransactions filtering_externals (demo_page (ascii ''1'')) demo_options start m =
     (Inr (AccountTxns
             [(ascii ''1234'',
               \<lparr>accountNumber = ascii ''1234'',
                txns = (if month_string m = ascii ''01'' then []
                        else [fixed_canonical (month_string m)]),
                index = Integer 0\<rparr>)]),
      [FixInstallmentsCall [demo_canonical (month_string m)],
       FilterOldTransactionsCall [fixed_canonical (month_string m)] start None])"
  by (simp add: fetchTransactions_def filtering_same_requests demo_fetchAccounts_ok
      demo_get_transactions transactions_status filtering_forEach_account Let_def)

lemma month_string_third: "month_string 24242 = ascii ''03''"
  by (simp add: month_string_def digits_of.simps ascii_def)

lemma month_names_differ:
  "ascii ''02'' \<noteq> ascii ''01''" "ascii ''03'' \<noteq> ascii ''01''"
  by (simp_all add: ascii_def)

lemma fixed_canonical_inject: "fixed_canonical s = fixed_canonical s' \<longleftrightarrow> s = s'"
  by (auto simp: fixed_canonical_def demo_canonical_def)

lemma filtering_months:
  "fetchTransactions filtering_externals (demo_page (ascii ''1'')) demo_options start 24240 =
     (Inr (AccountTxns
             [(ascii ''1234'',
               \<lparr>accountNumber = ascii ''1234'', txns = [], index = Integer 0\<rparr>)]),
      [FixInstallmentsCall [demo_canonical (ascii ''01'')],
       FilterOldTransactionsCall [fixed_canonical (ascii ''01'')] start None])"
  "fetchTransactions filtering_externals (demo_page (ascii ''1'')) demo_options start 24241 =
     (Inr (AccountTxns
             [(ascii ''1234'',
               \<lparr>accountNumber = ascii ''1234'', txns = [fixed_canonical (ascii ''02'')],
                index = Integer 0\<rparr>)]),
      [FixInstallmentsCall [demo_canonical (ascii ''02'')],
       FilterOldTransactionsCall [fixed_canonical (ascii ''02'')] start None])"
  "fetchTransactions filtering_externals (demo_page (ascii ''1'')) demo_options start 24242 =
     (Inr (AccountTxns
             [(ascii ''1234'',
               \<lparr>accountNumber = ascii ''1234'', txns = [fixed_canonical (ascii ''03'')],
                index = Integer 0\<rparr>)]),
      [FixInstallmentsCall [demo_canonical (ascii ''03'')],
       FilterOldTransactionsCall [fixed_canonical (ascii ''03'')] start None])"
  by (simp_all add: filtering_fetchTransactions month_strings month_string_third
      month_names_differ)

lemma filtering_forEach_result:
  "forEach_result []
     (AccountTxns [(ascii ''1234'', \<lparr>accountNumber = a, txns = ts, index = i\<rparr>)]) =
     Inr [(ascii ''1234'', ts)]"
  "forEach_result [(ascii ''1234'', ts')]
     (AccountTxns [(ascii ''1234'', \<lparr>accountNumber = a, txns = ts, index = i\<rparr>)]) =
     Inr [(ascii ''1234'', ts' @ ts)]"
proof -
  have key: "ascii ''1234'' \<noteq> ascii ''__proto__''" "ascii ''1234'' \<notin> set Object_prototype_names"
    by (simp_all add: ascii_def Object_prototype_names_def)
  show "forEach_result []
     (AccountTxns [(ascii ''1234'', \<lparr>accountNumber = a, txns = ts, index = i\<rparr>)]) =
     Inr [(ascii ''1234'', ts)]"
    by (simp add: forEach_result_def demo_result_keys forEach_accountNumber_def result_get_def
        obj_get_def obj_assign_def key)
  show "forEach_result [(ascii ''1234'', ts')]
     (AccountTxns [(ascii ''1234'', \<lparr>accountNumber = a, txns = ts, index = i\<rparr>)]) =
     Inr [(ascii ''1234'', ts' @ ts)]"
    by (simp add: forEach_result_def demo_result_keys forEach_accountNumber_def result_get_def
        obj_get_def obj_assign_def key)
qed

lemma filtering_fetchAllTransactions:
  "fetchAllTransactions filtering_externals (demo_page (ascii ''1'')) demo_options
     (ValidMoment 24240) [2, 0, Suc 0] =
     (Some (Inr \<lparr>success = True,
                 accounts = Some [\<lparr>accountNumber = ascii ''1234'',
                                   txns = [fixed_canonical (ascii ''02''),
                                           fixed_canonical (ascii ''03'')]\<rparr>],
                 errorType = None\<rparr>),
      [[FixInstallmentsCall [demo_canonical (ascii ''01'')],
        FilterOldTransactionsCall [fixed_canonical (ascii ''01'')] (ValidMoment 24240) None],
       [FixInstallmentsCall [demo_canonical (ascii ''02'')],
        FilterOldTransactionsCall [fixed_canonical (ascii ''02'')] (ValidMoment 24240) None],
       [FixInstallmentsCall [demo_canonical (ascii ''03'')],
        FilterOldTransactionsCall [fixed_canonical (ascii ''03'')] (ValidMoment 24240) None]])"
proof -
  have keys: "obj_keys [(ascii ''1234'', ts)] = [ascii ''1234'']" for ts :: "Transaction list"
    using demo_result_keys [of "demo_entry 0"]
    by (simp add: result_keys_def obj_keys_def)
  have settled: "promise_all [2, 0, Suc 0] [Inr a, Inr b, Inr c] = Some (Inr [a, b, c])"
    for a b c :: month_result
    using promise_all_values [of "[a, b, c]" "[2, 0, Suc 0]"] by (simp add: lessThan_Suc)
  have months: "(24240::int) + 1 = 24241" "(24240::int) + 2 = 24242"
    by simp_all
  show ?thesis
    by (simp add: fetchAllTransactions_def filtering_helpers months filtering_months settled
        filtering_forEach_result keys obj_get_def Let_def)
qed

text \<open>
  C4 as stated fails: in a run over three months with one account, where
  \<open>filterOldTransactions\<close> drops the purchase of the first month, the helper calls are
  one \<open>fixInstallments\<close> and one \<open>filterOldTransactions\<close> per month, each on that month's
  single transaction; the merged ledger of the two purchases that were kept is
  returned without having been passed to \<open>filterOldTransactions\<close>.
\<close>

theorem filterOldTransactions_merged_ledger_counterexample:
  "fetchAllTransactions filtering_externals (demo_page (ascii ''1'')) demo_options
     (ValidMoment 24240) [2, 0, 1] =
     (Some (Inr \<lparr>success = True,
                 accounts = Some [\<lparr>accountNumber = ascii ''1234'',
                                   txns = [fixed_canonical (ascii ''02''),
                                           fixed_canonical (ascii ''03'')]\<rparr>],
                 errorType = None\<rparr>),
      [[FixInstallmentsCall [demo_canonical (ascii ''01'')],
        FilterOldTransactionsCall [fixed_canonical (ascii ''01'')] (ValidMoment 24240) None],
       [FixInstallmentsCall [demo_canonical (ascii ''02'')],
        FilterOldTransactionsCall [fixed_canonical (ascii ''02'')] (ValidMoment 24240) None],
       [FixInstallmentsCall [demo_canonical (ascii ''03'')],
        FilterOldTransactionsCall [fixed_canonical (ascii ''03'')] (ValidMoment 24240) None]]) \<and>
   FilterOldTransactionsCall [fixed_canonical (ascii ''02''), fixed_canonical (ascii ''03'')]
       (ValidMoment 24240) None
     \<notin> set (concat (snd (fetchAllTransactions filtering_externals (demo_page (ascii ''1''))
                            demo_options (ValidMoment 24240) [2, 0, 1])))"
  by (simp add: filtering_fetchAllTransactions)

text \<open>
  C4, at the same run. The filter is called once in the first month, on the fixed
  purchase of that month, and what the month holds for the account is the filter's
  value on it, the empty list; the ledger returned is the filter's values of the three
  months, concatenated.
\<close>

theorem filterOldTransactions_call_sites_witness:
  "filter is_filter_call
     (snd (fetchTransactions filtering_externals (demo_page (ascii ''1'')) demo_options
             (ValidMoment 24240) 24240)) =
     [FilterOldTransactionsCall [fixed_canonical (ascii ''01'')] (ValidMoment 24240) None] \<and>
   month_txns (fetched_result filtering_externals (demo_page (ascii ''1'')) demo_options
                 (ValidMoment 24240) 24240) (ascii ''1234'') =
     filterOldTransactions filtering_externals [fixed_canonical (ascii ''01'')]
       (ValidMoment 24240) None \<and>
   filterOldTransactions filtering_externals [fixed_canonical (ascii ''01'')]
       (ValidMoment 24240) None = [] \<and>
   fst (fetchAllTransactions filtering_externals (demo_page (ascii ''1'')) demo_options
          (ValidMoment 24240) [2, 0, 1]) =
     Some (Inr \<lparr>success = True,
                accounts = Some [\<lparr>accountNumber = ascii ''1234'',
                                  txns = [fixed_canonical (ascii ''02''),
                                          fixed_canonical (ascii ''03'')]\<rparr>],
                errorType = None\<rparr>) \<and>
   [fixed_canonical (ascii ''02''), fixed_canonical (ascii ''03'')] =
     concat (map (\<lambda>m. month_txns
                         (fetched_result filtering_externals (demo_page (ascii ''1''))
                            demo_options (ValidMoment 24240) m)
                         (ascii ''1234''))
                 [24240, 24241, 24242])"
proof -
  let ?E = filtering_externals
  let ?P = "demo_page (ascii ''1'')"
  let ?S = "ValidMoment 24240"
  let ?acc = "\<lparr>accountNumber = ascii ''1234'',
               txns = [fixed_canonical (ascii ''02''), fixed_canonical (ascii ''03'')]\<rparr>"
  note general = filterOldTransactions_call_sites
    [of ?E ?P demo_options ?S "[2, 0, 1]" 24240]
  have months: "getAllMonthMoments ?E ?S True = [24240, 24241, 24242]"
    by (simp add: filtering_helpers)
  have accounts: "fetchAccounts ?E ?P (servicesUrl demo_options) 24240 = Some [demo_account]"
    by (simp add: filtering_same_requests demo_fetchAccounts_ok)
  have groups: "get_CurrentCardTransactions
      (fetchGetWithinPage ?P (getTransactionsUrl ?E (servicesUrl demo_options) 24240))
      (acc_index demo_account) =
      Some [\<lparr>txnIsrael = Some [demo_txn (ascii ''01'')], txnAbroad = None\<rparr>]"
    by (simp add: filtering_same_requests demo_get_transactions month_strings demo_groups
        demo_account_def)
  have opts: "combineInstallments demo_options = None"
    by (simp add: demo_options_def)
  have month_local: "month_local_txns ?E demo_account
       [\<lparr>txnIsrael = Some [demo_txn (ascii ''01'')], txnAbroad = None\<rparr>] =
     [demo_canonical (ascii ''01'')]"
    by (simp add: month_local_txns_def filtering_same_requests demo_convert demo_account_def
        demo_canonical_def)
  have fixed: "fixInstallments ?E [demo_canonical (ascii ''01'')] =
      [fixed_canonical (ascii ''01'')]"
    by (simp add: filtering_helpers fixed_canonical_def)
  have local:
    "filtered_month_txns ?E demo_options ?S demo_account
       [\<lparr>txnIsrael = Some [demo_txn (ascii ''01'')], txnAbroad = None\<rparr>] =
     filterOldTransactions ?E [fixed_canonical (ascii ''01'')] ?S None"
    by (simp add: filtered_month_txns_def opts month_local fixed)
  have result: "fetched_result ?E ?P demo_options ?S 24240 =
      AccountTxns [(ascii ''1234'',
                    \<lparr>accountNumber = ascii ''1234'', txns = [], index = Integer 0\<rparr>)]"
    by (simp add: fetched_result_def filtering_months)
  have expected: "expected_filter_calls ?E
      (fetchGetWithinPage ?P (getTransactionsUrl ?E (servicesUrl demo_options) 24240))
      demo_options ?S demo_account =
      [FilterOldTransactionsCall [fixed_canonical (ascii ''01'')] ?S None]"
    by (simp add: expected_filter_calls_def groups opts month_local fixed)
  have calls: "filter is_filter_call (snd (fetchTransactions ?E ?P demo_options ?S 24240)) =
      [FilterOldTransactionsCall [fixed_canonical (ascii ''01'')] ?S None]"
  proof -
    from general have "filter is_filter_call (snd (fetchTransactions ?E ?P demo_options ?S 24240)) =
     (case fst (fetchTransactions ?E ?P demo_options ?S 24240) of
        Inr (AccountTxns ob) \<Rightarrow>
          concat (map (expected_filter_calls ?E
                         (fetchGetWithinPage ?P
                            (getTransactionsUrl ?E (servicesUrl demo_options) 24240))
                         demo_options ?S)
                      (case fetchAccounts ?E ?P (servicesUrl demo_options) 24240 of
                         None \<Rightarrow> []
                       | Some accs \<Rightarrow> accs))
      | _ \<Rightarrow> [])"
      by blast
    also have "\<dots> = [FilterOldTransactionsCall [fixed_canonical (ascii ''01'')] ?S None]"
      by (simp add: filtering_months accounts expected)
    finally show ?thesis .
  qed
  have held: "month_txns (fetched_result ?E ?P demo_options ?S 24240) (ascii ''1234'') =
      filterOldTransactions ?E [fixed_canonical (ascii ''01'')] ?S None"
  proof -
    have "ascii ''1234'' \<in> set (result_keys (fetched_result ?E ?P demo_options ?S 24240))"
      by (simp add: result demo_result_keys)
    with general obtain account groups' where
      "account \<in> set (case fetchAccounts ?E ?P (servicesUrl demo_options) 24240 of
                         None \<Rightarrow> []
                       | Some accs \<Rightarrow> accs)"
      "get_CurrentCardTransactions
         (fetchGetWithinPage ?P (getTransactionsUrl ?E (servicesUrl demo_options) 24240))
         (acc_index account) = Some groups'"
      "month_txns (fetched_result ?E ?P demo_options ?S 24240) (ascii ''1234'') =
         filtered_month_txns ?E demo_options ?S account groups'"
      by blast
    then show ?thesis
      using local by (simp add: accounts groups)
  qed
  have dropped: "filterOldTransactions ?E [fixed_canonical (ascii ''01'')] ?S None = []"
    by (simp add: filtering_helpers fixed_canonical_description)
  have run: "fst (fetchAllTransactions ?E ?P demo_options ?S [2, 0, 1]) =
     Some (Inr \<lparr>success = True, accounts = Some [?acc], errorType = None\<rparr>)"
    by (simp add: filtering_fetchAllTransactions)
  have complete: "{..<length (getAllMonthMoments ?E ?S True)} \<subseteq> set [2, 0, 1]"
    by (auto simp: months)
  have fetched: "\<forall>m\<in>set (getAllMonthMoments ?E ?S True).
        \<exists>res. fst (fetchTransactions ?E ?P demo_options ?S m) = Inr res \<and>
              (\<forall>k\<in>set (result_keys res). k \<notin> set Object_prototype_names)"
    by (simp add: months filtering_months demo_result_keys demo_key_not_inherited)
  from general complete fetched obtain accs where
    accs: "fst (fetchAllTransactions ?E ?P demo_options ?S [2, 0, 1]) =
             Some (Inr \<lparr>success = True, accounts = Some accs, errorType = None\<rparr>)"
    and ledger: "\<forall>acc\<in>set accs.
              txns acc =
                concat (map (\<lambda>m. month_txns (fetched_result ?E ?P demo_options ?S m)
                                    (accountNumber acc))
                            (getAllMonthMoments ?E ?S True))"
    by blast
  from accs run have "accs = [?acc]" by simp
  with ledger have "txns ?acc =
      concat (map (\<lambda>m. month_txns (fetched_result ?E ?P demo_options ?S m)
                          (accountNumber ?acc))
                  (getAllMonthMoments ?E ?S True))"
    by simp
  then have "[fixed_canonical (ascii ''02''), fixed_canonical (ascii ''03'')] =
     concat (map (\<lambda>m. month_txns (fetched_result ?E ?P demo_options ?S m) (ascii ''1234''))
                 [24240, 24241, 24242])"
    by (simp add: months)
  with calls held dropped run show ?thesis by blast
qed

text \<open>
  C3 fails on the code. When the dashboard response has the header status \<open>'0'\<close> the
  resolver returns \<open>null\<close>; when the transactions list of the same month then answers
  with status \<open>'1'\<close> and a \<open>CardsTransactionsListBean\<close>, the fetcher calls
  \<open>accounts.forEach\<close> on \<open>null\<close> and throws a \<open>TypeError\<close> instead of completing with no
  transactions.
\<close>

theorem fetchTransactions_null_accounts_throws:
  "fetchAccounts demo_externals (demo_page (ascii ''0'')) (servicesUrl demo_options) 24240 = None \<and>
   fetchTransactions demo_externals (demo_page (ascii ''0'')) demo_options (ValidMoment 24240) 24240 =
     (Inl TypeError, [])"
  by (simp add: demo_fetchAccounts_failed demo_fetchTransactions_failed)

text \<open>
  C10 fails on the code, by the same defect: on that page \<open>fetchAllTransactions\<close>
  throws the \<open>TypeError\<close> of its monthly fetches and returns no result with a success
  flag.
\<close>

theorem fetchAllTransactions_null_accounts_throws:
  "fst (fetchAllTransactions demo_externals (demo_page (ascii ''0'')) demo_options (ValidMoment 24240) [1, 0]) =
     Some (Inl TypeError)"
  by (simp add: demo_fetchAllTransactions_failed)

section \<open>The month without a transactions list\<close>

text \<open>
  A month whose transactions-list response is missing, or has a header status other
  than \<open>'1'\<close>, or has no \<open>CardsTransactionsListBean\<close>, gives the empty array and no helper
  call, whatever the account resolver returned; the aggregator finds no key in it.
\<close>

theorem fetchTransactions_degrades_to_empty:
  assumes "get_Header_Status
             (fetchGetWithinPage pg (getTransactionsUrl ext (servicesUrl opts) m)) \<noteq>
             Some (ascii ''1'') \<or>
           (\<forall>r. fetchGetWithinPage pg (getTransactionsUrl ext (servicesUrl opts) m) = Some r \<longrightarrow>
                CardsTransactionsListBean r = None)"
  shows "fetchTransactions ext pg opts start m = (Inr EmptyArray, []) \<and>
         result_keys EmptyArray = []"
  using assms
  by (auto simp: fetchTransactions_def Let_def result_keys_def split: option.splits)

text \<open>A page that answers no GET at all.\<close>

theorem fetchTransactions_degrades_to_empty_witness:
  "fetchTransactions demo_externals (login_page None None) demo_options (ValidMoment 24240) 24240 =
     (Inr EmptyArray, [])"
proof -
  have "get_Header_Status
          (fetchGetWithinPage (login_page None None)
             (getTransactionsUrl demo_externals (servicesUrl demo_options) 24240)) \<noteq>
        Some (ascii ''1'')"
    by (simp add: login_page_def get_Header_Status_def)
  then show ?thesis
    using fetchTransactions_degrades_to_empty
      [of "login_page None None" demo_externals demo_options 24240 "ValidMoment 24240"]
    by blast
qed

end
